theory Spec2Isabelle
  imports Complex_Main "HOL-Library.Word"
begin

section \<open>Numbers, points and thresholds\<close>

text \<open>
  The script \<^verbatim>\<open>index.js\<close> finds three coloured dots in a canvas frame, checks that
  they lie on a line in the order red, pink, green with equal spacing, and computes the
  rotation that turns the front of the marked object towards the pointer.

  A JavaScript number is modelled by the real number it denotes. In clustering, in the
  three geometric checks and in the steering percentage a rounded value decides a
  comparison or a printed integer; there every arithmetic operation of the script is
  followed by \<open>fl\<close>, the rounding of IEEE 754 to the nearest double. The pivot and the
  rotation angle are kept as exact values. The one non-real number the code can meet,
  \<^verbatim>\<open>NaN\<close> from \<^verbatim>\<open>parseFloat\<close>, is modelled explicitly (type \<open>jsvalue\<close> below).
\<close>

type_synonym number = real

text \<open>A point object \<^verbatim>\<open>{x, y}\<close>; the fields are named \<open>px\<close> and \<open>py\<close>.\<close>

record point =
  px :: number
  py :: number

definition CLUSTER_RADIUS :: number where
  "CLUSTER_RADIUS = 100"

definition COLLINEARITY_THRESHOLD :: number where
  "COLLINEARITY_THRESHOLD = 50"

definition intervallTolerance :: number where
  "intervallTolerance = 0.8"

text \<open>
  Rounding to the nearest double, ties to the even significand: a number of magnitude
  in \<open>[2\<^sup>e, 2\<^sup>e\<^sup>+\<^sup>1)\<close> is rounded to a multiple of \<open>2\<^sup>e\<^sup>-\<^sup>5\<^sup>2\<close>, and below \<open>2\<^sup>-\<^sup>1\<^sup>0\<^sup>2\<^sup>2\<close> to a
  multiple of \<open>2\<^sup>-\<^sup>1\<^sup>0\<^sup>7\<^sup>4\<close>. The exponent has no upper bound in the model: a result
  beyond the largest double is a large number instead of \<^verbatim>\<open>Infinity\<close>, which compares
  with every double in the same way.
\<close>

definition roundTiesToEven :: "real \<Rightarrow> int" where
  "roundTiesToEven v =
     (let f = \<lfloor>v\<rfloor>; d = v - of_int f
      in if d < 1 / 2 then f else if d > 1 / 2 then f + 1 else if even f then f else f + 1)"

definition fl :: "real \<Rightarrow> number" where
  "fl v =
     (if v = 0 then 0
      else let e = max \<lfloor>log 2 \<bar>v\<bar>\<rfloor> (- 1022);
               q = 2 powi (e - 52)
           in of_int (roundTiesToEven (v / q)) * q)"

text \<open>The operators \<^verbatim>\<open>+\<close>, \<^verbatim>\<open>-\<close>, \<^verbatim>\<open>*\<close>, \<^verbatim>\<open>/\<close> and \<^verbatim>\<open>Math.sqrt\<close> on doubles.\<close>

definition fadd :: "number \<Rightarrow> number \<Rightarrow> number" where
  "fadd a b = fl (a + b)"

definition fsub :: "number \<Rightarrow> number \<Rightarrow> number" where
  "fsub a b = fl (a - b)"

definition fmul :: "number \<Rightarrow> number \<Rightarrow> number" where
  "fmul a b = fl (a * b)"

definition fdiv :: "number \<Rightarrow> number \<Rightarrow> number" where
  "fdiv a b = fl (a / b)"

definition fsqrt :: "number \<Rightarrow> number" where
  "fsqrt a = fl (sqrt a)"

text \<open>
  \<^verbatim>\<open>Math.hypot(a, b)\<close>. ECMAScript leaves its rounding to the implementation; the model
  follows the algorithm of the V8 engine for finite arguments: the largest magnitude
  \<open>max\<close> is found, the squares of the magnitudes divided by \<open>max\<close> are added with a
  compensated summation, and the result is the square root of the sum times \<open>max\<close>.
\<close>

definition hypot :: "number \<Rightarrow> number \<Rightarrow> number" where
  "hypot a b =
     (let absValues = [\<bar>a\<bar>, \<bar>b\<bar>];
          max' = fold (\<lambda>absValue m. if absValue > m then absValue else m) absValues 0
      in if max' = 0 then 0
         else
           (let (sum, compensation) =
                  fold (\<lambda>absValue (sum, compensation).
                          let r = fdiv absValue max';
                              summand = fsub (fmul r r) compensation;
                              preliminary = fadd sum summand
                          in (preliminary, fsub (fsub preliminary sum) summand))
                    absValues (0, 0)
            in fmul (fsqrt sum) max'))"

text \<open>\<^verbatim>\<open>distance(p1, p2)\<close>.\<close>

definition distance :: "point \<Rightarrow> point \<Rightarrow> number" where
  "distance p1 p2 = hypot (fsub (px p1) (px p2)) (fsub (py p1) (py p2))"

text \<open>
  The Euclidean distance of two points and the perpendicular distance of a point \<open>p\<close>
  from the line through \<open>p1\<close> and \<open>p2\<close> in exact arithmetic, as geometry defines them.
\<close>

definition exactDistance :: "point \<Rightarrow> point \<Rightarrow> real" where
  "exactDistance p1 p2 = sqrt ((px p1 - px p2)\<^sup>2 + (py p1 - py p2)\<^sup>2)"

definition exactPointLineDistance :: "point \<Rightarrow> point \<Rightarrow> point \<Rightarrow> real" where
  "exactPointLineDistance p p1 p2 =
     \<bar>(py p2 - py p1) * px p - (px p2 - px p1) * py p + px p2 * py p1 - py p2 * px p1\<bar>
       / exactDistance p1 p2"

section \<open>Clustering\<close>

record cluster =
  sumX :: number
  sumY :: number
  count :: nat

text \<open>
  \<^verbatim>\<open>addToClusters(clusters, x, y, threshold)\<close>: the \<^verbatim>\<open>for ... of\<close> loop visits the
  clusters in array order and returns at the first one whose centroid is closer than
  \<open>threshold\<close>; when the loop ends, a new cluster is pushed at the end. The source mutates
  the array in place; the model returns the updated array.
\<close>

fun addToClusters :: "cluster list \<Rightarrow> number \<Rightarrow> number \<Rightarrow> number \<Rightarrow> cluster list" where
  "addToClusters [] x y threshold = [\<lparr>sumX = x, sumY = y, count = 1\<rparr>]"
| "addToClusters (c # clusters) x y threshold =
     (let cx = fdiv (sumX c) (real (count c));
          cy = fdiv (sumY c) (real (count c))
      in if distance \<lparr>px = x, py = y\<rparr> \<lparr>px = cx, py = cy\<rparr> < threshold
         then c\<lparr>sumX := fadd (sumX c) x, sumY := fadd (sumY c) y, count := count c + 1\<rparr>
              # clusters
         else c # addToClusters clusters x y threshold)"

text \<open>
  An \<^verbatim>\<open>ImageData\<close> object: \<open>data\<close> is a \<^verbatim>\<open>Uint8ClampedArray\<close> of RGBA bytes in
  row-major order. Reading an index beyond the array gives \<^verbatim>\<open>undefined\<close> in
  JavaScript, modelled by \<open>None\<close>.
\<close>

record imageData =
  width :: nat
  height :: nat
  data :: "8 word list"

definition sample :: "8 word list \<Rightarrow> nat \<Rightarrow> number option" where
  "sample d i = (if i < length d then Some (real (unat (d ! i))) else None)"

text \<open>The values \<open>0, 2, 4, ...\<close> below \<open>n\<close> that a loop with step 2 visits.\<close>

definition stride2 :: "nat \<Rightarrow> nat list" where
  "stride2 n = map (\<lambda>i. 2 * i) [0 ..< (n + 1) div 2]"

text \<open>
  The body of the inner loop of \<^verbatim>\<open>clusterColor\<close> at the pixel \<open>(x, y)\<close>. When a channel
  is \<^verbatim>\<open>undefined\<close> the pixel does not match: each test function of the script computes
  \<^verbatim>\<open>Math.max\<close> of the channels, which is \<^verbatim>\<open>NaN\<close> then, and \<^verbatim>\<open>NaN >= 110\<close> is false.
\<close>

definition scanPixel ::
  "imageData \<Rightarrow> (number \<Rightarrow> number \<Rightarrow> number \<Rightarrow> bool) \<Rightarrow> nat \<Rightarrow> nat \<Rightarrow> cluster list \<Rightarrow> cluster list" where
  "scanPixel imageData testFunc y x clusters =
     (let index = (y * width imageData + x) * 4
      in case sample (data imageData) index of
           None \<Rightarrow> clusters
         | Some r \<Rightarrow>
            (case sample (data imageData) (index + 1) of
               None \<Rightarrow> clusters
             | Some g \<Rightarrow>
                (case sample (data imageData) (index + 2) of
                   None \<Rightarrow> clusters
                 | Some b \<Rightarrow>
                    if testFunc r g b
                    then addToClusters clusters (real x) (real y) CLUSTER_RADIUS
                    else clusters)))"

text \<open>The two nested loops of \<^verbatim>\<open>clusterColor\<close>, starting from no cluster.\<close>

definition scanClusters ::
  "imageData \<Rightarrow> (number \<Rightarrow> number \<Rightarrow> number \<Rightarrow> bool) \<Rightarrow> cluster list" where
  "scanClusters imageData testFunc =
     fold (\<lambda>y. fold (\<lambda>x. scanPixel imageData testFunc y x) (stride2 (width imageData)))
       (stride2 (height imageData)) []"

text \<open>
  The end of \<^verbatim>\<open>clusterColor\<close>: \<^verbatim>\<open>null\<close> for no cluster, otherwise the loop that keeps
  \<open>best\<close>, starting from the first cluster and replacing it only by a strictly larger one.
\<close>

definition largestCentroid :: "cluster list \<Rightarrow> point option" where
  "largestCentroid clusters =
     (case clusters of
        [] \<Rightarrow> None
      | c0 # _ \<Rightarrow>
         (let best = fold (\<lambda>cluster best. if count cluster > count best then cluster else best)
                       clusters c0
          in Some \<lparr>px = fdiv (sumX best) (real (count best)),
                   py = fdiv (sumY best) (real (count best))\<rparr>))"

definition clusterColor ::
  "imageData \<Rightarrow> (number \<Rightarrow> number \<Rightarrow> number \<Rightarrow> bool) \<Rightarrow> point option" where
  "clusterColor imageData testFunc = largestCentroid (scanClusters imageData testFunc)"

text \<open>
  Notions of the specification used to state the results on clustering: the centroid of
  a cluster as the script computes it, the pixels visited by the two loops in the order of the visits, whether the
  pixel at \<open>(x, y)\<close> passes the test, and the step taken at a pixel that does (the
  script always clusters with the radius 100).
\<close>

definition centroid :: "cluster \<Rightarrow> point" where
  "centroid c = \<lparr>px = fdiv (sumX c) (real (count c)), py = fdiv (sumY c) (real (count c))\<rparr>"

definition scanOrder :: "imageData \<Rightarrow> (nat \<times> nat) list" where
  "scanOrder imageData =
     concat (map (\<lambda>y. map (\<lambda>x. (x, y)) (stride2 (width imageData)))
               (stride2 (height imageData)))"

definition matches ::
  "imageData \<Rightarrow> (number \<Rightarrow> number \<Rightarrow> number \<Rightarrow> bool) \<Rightarrow> nat \<times> nat \<Rightarrow> bool" where
  "matches imageData testFunc xy =
     (let index = (snd xy * width imageData + fst xy) * 4
      in case (sample (data imageData) index, sample (data imageData) (index + 1),
               sample (data imageData) (index + 2)) of
           (Some r, Some g, Some b) \<Rightarrow> testFunc r g b
         | _ \<Rightarrow> False)"

definition matchedPixels ::
  "imageData \<Rightarrow> (number \<Rightarrow> number \<Rightarrow> number \<Rightarrow> bool) \<Rightarrow> (nat \<times> nat) list" where
  "matchedPixels imageData testFunc =
     filter (matches imageData testFunc) (scanOrder imageData)"

definition addPixel :: "nat \<times> nat \<Rightarrow> cluster list \<Rightarrow> cluster list" where
  "addPixel xy clusters = addToClusters clusters (real (fst xy)) (real (snd xy)) 100"

section \<open>Colour tests\<close>

definition isRed :: "number \<Rightarrow> number \<Rightarrow> number \<Rightarrow> bool" where
  "isRed r g b =
     (let max' = max (max r g) b
      in max' \<ge> 110 \<and> r = max' \<and> g < r * 0.5 \<and> b < r * 0.5)"

definition isPink :: "number \<Rightarrow> number \<Rightarrow> number \<Rightarrow> bool" where
  "isPink r g b =
     (let max' = max (max r g) b
      in max' \<ge> 110 \<and> r = max' \<and> b > 80 \<and> g < r * 0.5)"

definition isGreen :: "number \<Rightarrow> number \<Rightarrow> number \<Rightarrow> bool" where
  "isGreen r g b =
     (let max' = max (max r g) b
      in max' \<ge> 110 \<and> g = max' \<and> r < g * 0.5 \<and> b < g * 0.5)"

text \<open>The number a byte of the pixel buffer is read as.\<close>

definition channel :: "8 word \<Rightarrow> number" where
  "channel w = real (unat w)"

section \<open>Geometric checks\<close>

definition pointLineDistance :: "point \<Rightarrow> point \<Rightarrow> point \<Rightarrow> number" where
  "pointLineDistance p p1 p2 =
     (let num = \<bar>fsub (fadd (fsub (fmul (fsub (py p2) (py p1)) (px p))
                                   (fmul (fsub (px p2) (px p1)) (py p)))
                             (fmul (px p2) (py p1)))
                       (fmul (py p2) (px p1))\<bar>;
          den = distance p1 p2
      in if den = 0 then 0 else fdiv num den)"

definition isCollinear :: "point \<Rightarrow> point \<Rightarrow> point \<Rightarrow> number \<Rightarrow> bool" where
  "isCollinear p1 mid p2 threshold \<longleftrightarrow> pointLineDistance mid p1 p2 < threshold"

definition checkOrder :: "point \<Rightarrow> point \<Rightarrow> point \<Rightarrow> number \<Rightarrow> bool" where
  "checkOrder red pink green tolerance =
     (let dRP = distance red pink;
          dPG = distance pink green;
          dRG = distance red green
      in \<bar>fsub (fadd dRP dPG) dRG\<bar> < tolerance)"

text \<open>
  The values met by \<^verbatim>\<open>parseFloat(...) ?? intervallTolerance\<close>. \<^verbatim>\<open>parseFloat\<close> returns
  a number, which is \<open>NaN\<close> when the text does not start with one (\<open>Num\<close> stands for
  the finite numbers; the infinities are left out of the model). The operator \<^verbatim>\<open>??\<close>
  takes its right operand only when the left one is \<^verbatim>\<open>null\<close> or \<^verbatim>\<open>undefined\<close>.
\<close>

datatype jsvalue = Undefined | Null | NaN | Num number

fun nullish :: "jsvalue \<Rightarrow> jsvalue \<Rightarrow> jsvalue" where
  "nullish Undefined d = d"
| "nullish Null d = d"
| "nullish v d = v"

text \<open>
  \<^verbatim>\<open>checkEqualIntervals(red, pink, green)\<close>; \<open>parsed\<close> is the value of
  \<^verbatim>\<open>parseFloat(intervallToleranceInput.value)\<close>. With a \<open>NaN\<close> tolerance, \<open>min\<close> and
  \<open>max\<close> are \<open>NaN\<close>, so are the four products, and every comparison with \<open>NaN\<close> is
  false.
\<close>

definition checkEqualIntervals :: "jsvalue \<Rightarrow> point \<Rightarrow> point \<Rightarrow> point \<Rightarrow> bool" where
  "checkEqualIntervals parsed red pink green =
     (let dRP = distance red pink;
          dPG = distance pink green;
          dRG = distance red green;
          tolerance = nullish parsed (Num intervallTolerance)
      in case tolerance of
           Num t \<Rightarrow>
             (let min' = fsub 1 t;
                  max' = fadd 1 t
              in dPG > fmul dRP min' \<and> dPG < fmul dRP max' \<and>
                 dRG > fmul (fmul dRP min') 2 \<and> dRG < fmul (fmul dRP max') 2)
         | _ \<Rightarrow> False)"

section \<open>Rotation\<close>

text \<open>
  \<^verbatim>\<open>Math.atan2(b, a)\<close> on real numbers: the angle of the point \<open>(a, b)\<close>, in
  the interval from \<open>-\<pi>\<close> (excluded) to \<open>\<pi>\<close> (included), and \<open>0\<close> at the origin.
\<close>

definition atan2 :: "number \<Rightarrow> number \<Rightarrow> number" where
  "atan2 b a =
     (if a > 0 then arctan (b / a)
      else if a < 0 then (if b \<ge> 0 then arctan (b / a) + pi else arctan (b / a) - pi)
      else if b > 0 then pi / 2
      else if b < 0 then - (pi / 2)
      else 0)"

definition computeRotation :: "point \<Rightarrow> point \<Rightarrow> point \<Rightarrow> number" where
  "computeRotation middle red mouse =
     (let currentAngle = atan2 (py red - py middle) (px red - px middle);
          targetAngle = atan2 (py mouse - py middle) (px mouse - px middle);
          rotation = (targetAngle - currentAngle) * (180 / pi);
          rotation = (if rotation > 180 then rotation - 360 else rotation);
          rotation = (if rotation \<le> - 180 then rotation + 360 else rotation)
      in rotation)"

section \<open>The steering message\<close>

text \<open>
  \<^verbatim>\<open>Math.round\<close> rounds to the nearest integer, a half towards \<open>+\<infinity>\<close>; it is exact on
  every double.
\<close>

definition Math_round :: "number \<Rightarrow> int" where
  "Math_round v = \<lfloor>v + 1 / 2\<rfloor>"

text \<open>
  The decimal text a template literal gives for an integer, and the integer a decimal
  text stands for.
\<close>

fun natText :: "nat \<Rightarrow> string" where
  "natText n =
     (if n < 10 then [''0123456789'' ! n]
      else natText (n div 10) @ [''0123456789'' ! (n mod 10)])"

declare natText.simps [simp del]

definition intText :: "int \<Rightarrow> string" where
  "intText i = (if i < 0 then ''-'' @ natText (nat (- i)) else natText (nat i))"

definition digitValue :: "char \<Rightarrow> nat" where
  "digitValue c = length (takeWhile (\<lambda>d. d \<noteq> c) ''0123456789'')"

definition natOfText :: "string \<Rightarrow> nat" where
  "natOfText s = fold (\<lambda>c n. 10 * n + digitValue c) s 0"

definition intOfText :: "string \<Rightarrow> int" where
  "intOfText s =
     (case s of
        [] \<Rightarrow> 0
      | c # cs \<Rightarrow> if c = CHR ''-'' then - int (natOfText cs) else int (natOfText s))"

text \<open>
  The text that \<^verbatim>\<open>processFrame\<close> writes to \<^verbatim>\<open>coordsDisplay\<close> for a rotation
  (the branch on \<^verbatim>\<open>Math.abs(rotation) < 90\<close>).
\<close>

definition steeringText :: "number \<Rightarrow> string" where
  "steeringText rotation =
     (if \<bar>rotation\<bar> < 90
      then ''The boat have to rotate '' @ (if rotation > 0 then ''right'' else ''left'')
           @ '' with factor '' @ intText (Math_round (fmul (fdiv \<bar>rotation\<bar> 180) 100))
           @ ''%''
      else ''The boat have to turn '' @ (if rotation > 0 then ''right'' else ''left'')
           @ '' and then rotate '' @ (if rotation > 0 then ''right'' else ''left'')
           @ '' with factor ''
           @ intText (Math_round (fmul (fdiv (fsub \<bar>rotation\<bar> 90) 180) 100)) @ ''%'')"

text \<open>
  The steering classification of the specification, with the quotient and the product of
  the percentage rounded to doubles, and the sentence of the script that stands for each
  classification.
\<close>

datatype mode = Simple | Combined

datatype direction = Left | Right

record heading =
  mode :: mode
  direction :: direction
  magnitudePercent :: int

definition steering_spec :: "number \<Rightarrow> heading" where
  "steering_spec rotation =
     (if \<bar>rotation\<bar> < 90
      then \<lparr>mode = Simple,
            direction = (if rotation > 0 then Right else Left),
            magnitudePercent = round (fmul (fdiv \<bar>rotation\<bar> 180) 100)\<rparr>
      else \<lparr>mode = Combined,
            direction = (if rotation > 0 then Right else Left),
            magnitudePercent = round (fmul (fdiv (fsub \<bar>rotation\<bar> 90) 180) 100)\<rparr>)"

fun directionWord :: "direction \<Rightarrow> string" where
  "directionWord Right = ''right''"
| "directionWord Left = ''left''"

fun headingText :: "heading \<Rightarrow> string" where
  "headingText h =
     (case mode h of
        Simple \<Rightarrow>
          ''The boat have to rotate '' @ directionWord (direction h)
          @ '' with factor '' @ intText (magnitudePercent h) @ ''%''
      | Combined \<Rightarrow>
          ''The boat have to turn '' @ directionWord (direction h)
          @ '' and then rotate '' @ directionWord (direction h)
          @ '' with factor '' @ intText (magnitudePercent h) @ ''%'')"

section \<open>Processing a frame\<close>

text \<open>
  Point objects live in a store and are named by their addresses, since \<^verbatim>\<open>processFrame\<close>
  updates one of them in place. \<^verbatim>\<open>detectDots\<close> returns an object whose three fields
  are each \<^verbatim>\<open>null\<close> or a freshly created point.
\<close>

type_synonym addr = nat

type_synonym store = "addr \<Rightarrow> point"

record heap =
  cells :: store
  fresh :: addr

record dots =
  red :: "addr option"
  pink :: "addr option"
  green :: "addr option"

fun alloc :: "heap \<Rightarrow> point option \<Rightarrow> heap \<times> addr option" where
  "alloc h None = (h, None)"
| "alloc h (Some p) =
     (h\<lparr>cells := (cells h)(fresh h := p), fresh := Suc (fresh h)\<rparr>, Some (fresh h))"

definition detectDots :: "heap \<Rightarrow> imageData \<Rightarrow> heap \<times> dots" where
  "detectDots h imageData =
     (let (h1, redPoint) = alloc h (clusterColor imageData isRed);
          (h2, pinkPoint) = alloc h1 (clusterColor imageData isPink);
          (h3, greenPoint) = alloc h2 (clusterColor imageData isGreen)
      in (h3, \<lparr>red = redPoint, pink = pinkPoint, green = greenPoint\<rparr>))"

text \<open>
  The condition \<^verbatim>\<open>isCollinear(...) && checkOrder(...) && checkEqualIntervals(...)\<close>
  with the list of the checks that were evaluated: \<^verbatim>\<open>&&\<close> does not evaluate its right
  operand when the left one is false.
\<close>

datatype check = Collinearity | Ordering | EqualIntervals

definition geometryChecks :: "jsvalue \<Rightarrow> point \<Rightarrow> point \<Rightarrow> point \<Rightarrow> bool \<times> check list" where
  "geometryChecks parsed r p g =
     (if \<not> isCollinear r p g COLLINEARITY_THRESHOLD then (False, [Collinearity])
      else if \<not> checkOrder r p g COLLINEARITY_THRESHOLD then (False, [Collinearity, Ordering])
      else (checkEqualIntervals parsed r p g, [Collinearity, Ordering, EqualIntervals]))"

text \<open>
  The pivot: \<^verbatim>\<open>const middleFront = dots.pink\<close> makes \<open>middleFront\<close> the pink object
  itself, and the two \<^verbatim>\<open>+=\<close> assignments write to that object. \<open>r\<close> and \<open>p\<close> are the
  addresses in \<^verbatim>\<open>dots.red\<close> and \<^verbatim>\<open>dots.pink\<close>.
\<close>

definition middleFrontStep :: "store \<Rightarrow> addr \<Rightarrow> addr \<Rightarrow> store \<times> addr" where
  "middleFrontStep s r p =
     (let middleFront = p;
          s1 = s(middleFront := (s middleFront)
                 \<lparr>px := px (s middleFront) + (px (s r) - px (s p)) / 2\<rparr>);
          s2 = s1(middleFront := (s1 middleFront)
                 \<lparr>py := py (s1 middleFront) + (py (s1 r) - py (s1 p)) / 2\<rparr>)
      in (s2, middleFront))"

text \<open>
  The two text fields. The angle field is either emptied or shows the rotation
  (\<^verbatim>\<open>Rotation to point toward mouse:\<close> followed by the rotation with two decimals).
\<close>

datatype angleText = AngleEmpty | AngleRotation number

record display =
  coordsDisplay :: string
  angleDisplay :: angleText

text \<open>The pointer position; a coordinate may be \<^verbatim>\<open>null\<close>.\<close>

record mousePos =
  mouseX :: "number option"
  mouseY :: "number option"

record frameResult =
  storeAfter :: store
  shown :: display
  evaluated :: "check list"

text \<open>
  \<^verbatim>\<open>processFrame\<close> from the test \<^verbatim>\<open>dots.red && dots.pink && dots.green\<close> on
  (drawing is left out). \<open>parsed\<close> is the parsed tolerance input, \<open>disp\<close> the text
  fields before the frame.
\<close>

definition processDots :: "jsvalue \<Rightarrow> mousePos \<Rightarrow> store \<Rightarrow> display \<Rightarrow> dots \<Rightarrow> frameResult" where
  "processDots parsed mouse s disp d =
     (case red d of
        None \<Rightarrow> \<lparr>storeAfter = s,
                 shown = \<lparr>coordsDisplay = ''Not all dots detected.'', angleDisplay = AngleEmpty\<rparr>,
                 evaluated = []\<rparr>
      | Some r \<Rightarrow>
     (case pink d of
        None \<Rightarrow> \<lparr>storeAfter = s,
                 shown = \<lparr>coordsDisplay = ''Not all dots detected.'', angleDisplay = AngleEmpty\<rparr>,
                 evaluated = []\<rparr>
      | Some p \<Rightarrow>
     (case green d of
        None \<Rightarrow> \<lparr>storeAfter = s,
                 shown = \<lparr>coordsDisplay = ''Not all dots detected.'', angleDisplay = AngleEmpty\<rparr>,
                 evaluated = []\<rparr>
      | Some g \<Rightarrow>
         (let (ok, checks) = geometryChecks parsed (s r) (s p) (s g)
          in if ok
             then
               (let (s2, middleFront) = middleFrontStep s r p
                in case mouseX mouse of
                     None \<Rightarrow> \<lparr>storeAfter = s2, shown = disp, evaluated = checks\<rparr>
                   | Some mx \<Rightarrow>
                  (case mouseY mouse of
                     None \<Rightarrow> \<lparr>storeAfter = s2, shown = disp, evaluated = checks\<rparr>
                   | Some my \<Rightarrow>
                      (let rotation = computeRotation (s2 middleFront) (s2 r) \<lparr>px = mx, py = my\<rparr>
                       in \<lparr>storeAfter = s2,
                           shown = \<lparr>coordsDisplay = steeringText rotation,
                                    angleDisplay = AngleRotation rotation\<rparr>,
                           evaluated = checks\<rparr>)))
             else \<lparr>storeAfter = s,
                   shown = \<lparr>coordsDisplay =
                              ''Detected points are not collinear or in the correct order.'',
                            angleDisplay = AngleEmpty\<rparr>,
                   evaluated = checks\<rparr>))))"

definition processFrame ::
  "jsvalue \<Rightarrow> mousePos \<Rightarrow> imageData \<Rightarrow> heap \<Rightarrow> display \<Rightarrow> frameResult" where
  "processFrame parsed mouse imageData h disp =
     (let (h1, d) = detectDots h imageData
      in processDots parsed mouse (cells h1) disp d)"

section \<open>Rounding to doubles\<close>

lemma roundTiesToEven_of_int: "roundTiesToEven (of_int k) = k"
  by (simp add: roundTiesToEven_def)

lemma roundTiesToEven_between:
  assumes "of_int m - 1 / 2 < v" "v < of_int m + 1 / 2"
  shows "roundTiesToEven v = m"
proof (cases "v < of_int m")
  case True
  have "\<lfloor>v\<rfloor> = m - 1" using True assms(1) by linarith
  then show ?thesis using assms(1) by (simp add: roundTiesToEven_def)
next
  case False
  have "\<lfloor>v\<rfloor> = m" using False assms(2) by linarith
  then show ?thesis using assms(2) by (simp add: roundTiesToEven_def)
qed

lemma floor_log2_eqI:
  assumes "2 powi e \<le> \<bar>v\<bar>" "\<bar>v\<bar> < 2 powi (e + 1)"
  shows "\<lfloor>log 2 \<bar>v\<bar>\<rfloor> = e"
proof -
  have "(0::real) < 2 powi e" by simp
  with assms(1) have pos: "0 < \<bar>v\<bar>" by linarith
  have a: "(2::real) powr real_of_int e = 2 powi e" by (simp add: powr_real_of_int')
  have b: "(2::real) powr (real_of_int e + 1) = 2 powi (e + 1)"
    using powr_real_of_int'[of "2::real" "e + 1"] by simp
  show ?thesis
    using floor_log_eq_powr_iff[of "\<bar>v\<bar>" 2 e] pos assms a b by simp
qed

text \<open>
  The rounding of a number whose binade is known: with \<open>e\<close> given, both sides are
  evaluated by rewriting.
\<close>

lemma fl_eqI:
  assumes "2 powi e \<le> \<bar>v\<bar>" "\<bar>v\<bar> < 2 powi (e + 1)" "- 1022 \<le> e"
    and "roundTiesToEven (v / 2 powi (e - 52)) = m"
  shows "fl v = of_int m * 2 powi (e - 52)"
proof -
  have "(0::real) < 2 powi e" by simp
  with assms(1) have "0 < \<bar>v\<bar>" by linarith
  then have "v \<noteq> 0" by simp
  moreover have "\<lfloor>log 2 \<bar>v\<bar>\<rfloor> = e" using assms(1,2) by (rule floor_log2_eqI)
  ultimately show ?thesis using assms(3,4) by (simp add: fl_def Let_def max_def)
qed

lemma fl_0 [simp]: "fl 0 = 0"
  by (simp add: fl_def)

text \<open>Integers below \<open>2\<^sup>5\<^sup>3\<close> in magnitude are doubles.\<close>

lemma fl_of_int:
  assumes "\<bar>n\<bar> < 2 ^ 53"
  shows "fl (of_int n) = of_int n"
proof (cases "n = 0")
  case True
  then show ?thesis by simp
next
  case False
  define e where "e = \<lfloor>log 2 \<bar>real_of_int n\<bar>\<rfloor>"
  have pos: "0 < \<bar>real_of_int n\<bar>" using False by simp
  have ge1: "1 \<le> \<bar>real_of_int n\<bar>" using False by (simp add: abs_if)
  have lt: "\<bar>real_of_int n\<bar> < 2 ^ 53"
  proof -
    have "real_of_int \<bar>n\<bar> < real_of_int (2 ^ 53)" using assms by (simp only: of_int_less_iff)
    then show ?thesis by simp
  qed
  have e0: "0 \<le> e" unfolding e_def using ge1 by simp
  have "log 2 \<bar>real_of_int n\<bar> < 53"
    using lt pos by (simp add: log_less_iff)
  then have e52: "e \<le> 52" unfolding e_def by linarith
  define d where "d = nat (52 - e)"
  have ed: "e - 52 = - int d" using e52 by (simp add: d_def)
  have q: "(2::real) powi (e - 52) = 1 / 2 ^ d"
    unfolding ed by (simp add: power_int_minus_divide)
  have "real_of_int n / (2 powi (e - 52)) = of_int (n * 2 ^ d)"
    by (simp add: q)
  then have r: "roundTiesToEven (real_of_int n / (2 powi (e - 52))) = n * 2 ^ d"
    by (simp only: roundTiesToEven_of_int)
  have m: "max e (- 1022) = e" using e0 by simp
  have "fl (of_int n) = of_int (n * 2 ^ d) * 2 powi (e - 52)"
    using False r m by (simp add: fl_def Let_def e_def[symmetric])
  also have "\<dots> = of_int n" by (simp add: q)
  finally show ?thesis .
qed

lemma fl_numeral [simp]:
  "numeral k < (2::int) ^ 53 \<Longrightarrow> fl (numeral k) = numeral k"
  "numeral k < (2::int) ^ 53 \<Longrightarrow> fl (- numeral k) = - numeral k"
  using fl_of_int[of "numeral k"] fl_of_int[of "- numeral k"] by simp_all

lemma fl_1 [simp]: "fl 1 = 1" "fl (- 1) = - 1"
  using fl_of_int[of 1] fl_of_int[of "- 1"] by simp_all

text \<open>The correctly rounded square root, from the squares of the two neighbouring midpoints.\<close>

lemma fsqrt_evalI:
  assumes "2 ^ 52 < m" "m < 2 ^ 53" "- 1022 \<le> e"
    and "((of_int m - 1 / 2) * 2 powi (e - 52))\<^sup>2 < p"
    and "p < ((of_int m + 1 / 2) * 2 powi (e - 52))\<^sup>2"
  shows "fsqrt p = of_int m * 2 powi (e - 52)"
proof -
  define q :: real where "q = 2 powi (e - 52)"
  have q0: "0 < q" by (simp add: q_def)
  have m1: "2 ^ 52 + 1 \<le> real_of_int m"
  proof -
    have "2 ^ 52 + 1 \<le> m" using assms(1) by simp
    then have "real_of_int (2 ^ 52 + 1) \<le> real_of_int m" by (simp only: of_int_le_iff)
    then show ?thesis by simp
  qed
  have m2: "real_of_int m \<le> 2 ^ 53 - 1"
  proof -
    have "m \<le> 2 ^ 53 - 1" using assms(2) by simp
    then have "real_of_int m \<le> real_of_int (2 ^ 53 - 1)" by (simp only: of_int_le_iff)
    then show ?thesis by simp
  qed
  have lo0: "0 \<le> (of_int m - 1 / 2) * q" using m1 q0 by simp
  have hi0: "0 \<le> (of_int m + 1 / 2) * q" using m1 q0 by simp
  have lo: "(of_int m - 1 / 2) * q < sqrt p"
    using assms(4) by (simp add: q_def real_less_rsqrt)
  have hi: "sqrt p < (of_int m + 1 / 2) * q"
    using assms(5) hi0 by (simp add: q_def real_less_lsqrt)
  have sp: "0 < sqrt p" using lo lo0 by linarith
  have e1: "(2::real) powi e = 2 ^ 52 * q"
    using power_int_add[of "2::real" 52 "e - 52"] by (simp add: q_def)
  have e2: "(2::real) powi (e + 1) = 2 ^ 53 * q"
    using power_int_add[of "2::real" 53 "e - 52"] by (simp add: q_def add.commute)
  have "2 ^ 52 * q \<le> (of_int m - 1 / 2) * q" using m1 q0 by simp
  then have b1: "2 powi e \<le> \<bar>sqrt p\<bar>" using lo sp by (simp add: e1)
  have "(of_int m + 1 / 2) * q \<le> 2 ^ 53 * q" using m2 q0 by simp
  then have b2: "\<bar>sqrt p\<bar> < 2 powi (e + 1)" using hi sp by (simp add: e2)
  have "of_int m - 1 / 2 < sqrt p / q" "sqrt p / q < of_int m + 1 / 2"
    using lo hi q0 by (simp_all add: field_simps)
  then have "roundTiesToEven (sqrt p / q) = m" by (rule roundTiesToEven_between)
  then have "roundTiesToEven (sqrt p / 2 powi (e - 52)) = m" by (simp add: q_def)
  with b1 b2 assms(3) have "fl (sqrt p) = of_int m * 2 powi (e - 52)" by (rule fl_eqI)
  then show ?thesis by (simp add: fsqrt_def)
qed

text \<open>\<open>hypot\<close> along an axis, and step by step.\<close>

lemma hypot_axis_x: "a \<noteq> 0 \<Longrightarrow> hypot a 0 = fl \<bar>a\<bar>"
  by (simp add: hypot_def fdiv_def fmul_def fsub_def fadd_def fsqrt_def)

lemma hypot_axis_y: "b \<noteq> 0 \<Longrightarrow> hypot 0 b = fl \<bar>b\<bar>"
  by (simp add: hypot_def fdiv_def fmul_def fsub_def fadd_def fsqrt_def)

lemma hypot_0: "hypot 0 0 = 0"
  by (simp add: hypot_def)

lemma hypot_evalI:
  assumes "\<bar>a\<bar> = a'" "\<bar>b\<bar> = b'" "max a' b' = m" "m \<noteq> 0"
    and "fdiv a' m = r1" "fmul r1 r1 = t1" "fsub t1 0 = s1" "fadd 0 s1 = p1"
    and "fsub p1 0 = u1" "fsub u1 s1 = c1"
    and "fdiv b' m = r2" "fmul r2 r2 = t2" "fsub t2 c1 = s2" "fadd p1 s2 = p2"
    and "fsqrt p2 = q" "fmul q m = h"
  shows "hypot a b = h"
proof -
  have mx: "fold (\<lambda>absValue m. if absValue > m then absValue else m) [\<bar>a\<bar>, \<bar>b\<bar>] 0 = m"
    using assms(1-3) by (auto simp add: max_def)
  show ?thesis
    unfolding hypot_def Let_def mx using assms by simp
qed

section \<open>Roundings at the numbers of the examples\<close>

text \<open>
  Each operation that the examples below perform, at its operands: the exponent and the
  significand of the result are given to \<open>fl_eqI\<close>, which checks them by evaluation.
\<close>

lemma fl_at_1: "fsub 0 0 = 0"
  by (simp add: fsub_def)

lemma fl_at_2: "fmul 0 50 = 0"
  by (simp add: fmul_def)

lemma fl_at_3: "fsub 100 0 = 100"
  by (simp add: fsub_def)

lemma fl_at_4: "fmul 100 0 = 0"
  by (simp add: fmul_def)

lemma fl_at_5: "fmul 0 0 = 0"
  by (simp add: fmul_def)

lemma fl_at_6: "fadd 0 0 = 0"
  by (simp add: fadd_def)

lemma fl_at_7: "fsub 0 100 = (- 100)"
  by (simp add: fsub_def)

lemma fl_at_8: "hypot (- 100) 0 = 100"
  by (simp add: hypot_axis_x)

lemma fl_at_9: "fdiv 0 100 = 0"
  by (simp add: fdiv_def)

lemma fl_at_10: "fsub 0 50 = (- 50)"
  by (simp add: fsub_def)

lemma fl_at_11: "hypot (- 50) 0 = 50"
  by (simp add: hypot_axis_x)

lemma fl_at_12: "fsub 50 100 = (- 50)"
  by (simp add: fsub_def)

lemma fl_at_13: "fadd 50 50 = 100"
  by (simp add: fadd_def)

lemma fl_at_14: "fsub 100 100 = 0"
  by (simp add: fsub_def)

lemma fl_at_15: "fsub 1 (7 / 10) = (5404319552844595 / 18014398509481984)"
  unfolding fsub_def
  using fl_eqI[of "- 2" "1 - (7 / 10)" 5404319552844595]
  by (simp add: roundTiesToEven_def)

lemma fl_at_16: "fadd 1 (7 / 10) = (7656119366529843 / 4503599627370496)"
  unfolding fadd_def
  using fl_eqI[of 0 "1 + (7 / 10)" 7656119366529843]
  by (simp add: roundTiesToEven_def)

lemma fl_at_17: "fmul 50 (5404319552844595 / 18014398509481984) = 15"
  unfolding fmul_def
  using fl_eqI[of 3 "50 * (5404319552844595 / 18014398509481984)" 8444249301319680]
  by (simp add: roundTiesToEven_def)

lemma fl_at_18: "fmul 50 (7656119366529843 / 4503599627370496) = 85"
  unfolding fmul_def
  using fl_eqI[of 6 "50 * (7656119366529843 / 4503599627370496)" 5981343255101440]
  by (simp add: roundTiesToEven_def)

lemma fl_at_19: "fmul 15 2 = 30"
  by (simp add: fmul_def)

lemma fl_at_20: "fmul 85 2 = 170"
  by (simp add: fmul_def)

lemma fl_at_21: "fsub 1 (4 / 5) = (3602879701896397 / 18014398509481984)"
  unfolding fsub_def
  using fl_eqI[of "- 3" "1 - (4 / 5)" 7205759403792794]
  by (simp add: roundTiesToEven_def)

lemma fl_at_22: "fadd 1 (4 / 5) = (8106479329266893 / 4503599627370496)"
  unfolding fadd_def
  using fl_eqI[of 0 "1 + (4 / 5)" 8106479329266893]
  by (simp add: roundTiesToEven_def)

lemma fl_at_23: "fmul 50 (3602879701896397 / 18014398509481984) = 10"
  unfolding fmul_def
  using fl_eqI[of 3 "50 * (3602879701896397 / 18014398509481984)" 5629499534213120]
  by (simp add: roundTiesToEven_def)

lemma fl_at_24: "fmul 50 (8106479329266893 / 4503599627370496) = 90"
  unfolding fmul_def
  using fl_eqI[of 6 "50 * (8106479329266893 / 4503599627370496)" 6333186975989760]
  by (simp add: roundTiesToEven_def)

lemma fl_at_25: "fmul 10 2 = 20"
  by (simp add: fmul_def)

lemma fl_at_26: "fmul 90 2 = 180"
  by (simp add: fmul_def)

lemma fl_at_27: "fmul 100 60 = 6000"
  by (simp add: fmul_def)

lemma fl_at_28: "fsub 0 6000 = (- 6000)"
  by (simp add: fsub_def)

lemma fl_at_29: "fadd (- 6000) 0 = (- 6000)"
  by (simp add: fadd_def)

lemma fl_at_30: "fsub (- 6000) 0 = (- 6000)"
  by (simp add: fsub_def)

lemma fl_at_31: "fdiv 6000 100 = 60"
  by (simp add: fdiv_def)

lemma fl_at_32: "fsub 40 0 = 40"
  by (simp add: fsub_def)

lemma fl_at_33: "fmul 40 25 = 1000"
  by (simp add: fmul_def)

lemma fl_at_34: "fsub 30 0 = 30"
  by (simp add: fsub_def)

lemma fl_at_35: "fmul 30 0 = 0"
  by (simp add: fmul_def)

lemma fl_at_36: "fmul 40 0 = 0"
  by (simp add: fmul_def)

lemma fl_at_37: "fsub 1000 0 = 1000"
  by (simp add: fsub_def)

lemma fl_at_38: "fadd 1000 0 = 1000"
  by (simp add: fadd_def)

lemma fl_at_39: "fsub 0 30 = (- 30)"
  by (simp add: fsub_def)

lemma fl_at_40: "fsub 0 40 = (- 40)"
  by (simp add: fsub_def)

lemma fl_at_41: "fdiv 30 40 = (3 / 4)"
  unfolding fdiv_def
  using fl_eqI[of "- 1" "30 / 40" 6755399441055744]
  by (simp add: roundTiesToEven_def)

lemma fl_at_42: "fmul (3 / 4) (3 / 4) = (9 / 16)"
  unfolding fmul_def
  using fl_eqI[of "- 1" "(3 / 4) * (3 / 4)" 5066549580791808]
  by (simp add: roundTiesToEven_def)

lemma fl_at_43: "fsub (9 / 16) 0 = (9 / 16)"
  unfolding fsub_def
  using fl_eqI[of "- 1" "(9 / 16) - 0" 5066549580791808]
  by (simp add: roundTiesToEven_def)

lemma fl_at_44: "fadd 0 (9 / 16) = (9 / 16)"
  unfolding fadd_def
  using fl_eqI[of "- 1" "0 + (9 / 16)" 5066549580791808]
  by (simp add: roundTiesToEven_def)

lemma fl_at_45: "fsub (9 / 16) (9 / 16) = 0"
  by (simp add: fsub_def)

lemma fl_at_46: "fdiv 40 40 = 1"
  by (simp add: fdiv_def)

lemma fl_at_47: "fmul 1 1 = 1"
  by (simp add: fmul_def)

lemma fl_at_48: "fsub 1 0 = 1"
  by (simp add: fsub_def)

lemma fl_at_49: "fadd (9 / 16) 1 = (25 / 16)"
  unfolding fadd_def
  using fl_eqI[of 0 "(9 / 16) + 1" 7036874417766400]
  by (simp add: roundTiesToEven_def)

lemma fl_at_50: "fsqrt (25 / 16) = (5 / 4)"
  using fsqrt_evalI[of 5629499534213120 0 "(25 / 16)"]
  by (simp add: power2_eq_square)

lemma fl_at_51: "fmul (5 / 4) 40 = 50"
  by (simp add: fmul_def)

lemma fl_at_52: "hypot (- 30) (- 40) = 50"
  by (rule hypot_evalI[where a' = "30" and b' = "40" and m = "40",
        OF _ _ _ _ fl_at_41 fl_at_42 fl_at_43 fl_at_44 fl_at_43 fl_at_45 fl_at_46 fl_at_47 fl_at_48 fl_at_49 fl_at_50 fl_at_51])
    simp_all

lemma fl_at_53: "fdiv 1000 50 = 20"
  by (simp add: fdiv_def)

lemma fl_at_54: "fmul 40 100 = 4000"
  by (simp add: fmul_def)

lemma fl_at_55: "fsub 4000 0 = 4000"
  by (simp add: fsub_def)

lemma fl_at_56: "fadd 4000 0 = 4000"
  by (simp add: fadd_def)

lemma fl_at_57: "fdiv 4000 50 = 80"
  by (simp add: fdiv_def)

lemma fl_at_58: "fdiv 196 3 = (4597424619607381 / 70368744177664)"
  unfolding fdiv_def
  using fl_eqI[of 6 "196 / 3" 4597424619607381]
  by (simp add: roundTiesToEven_def)

lemma fl_at_59: "fdiv 346 3 = (8115861828490581 / 70368744177664)"
  unfolding fdiv_def
  using fl_eqI[of 6 "346 / 3" 8115861828490581]
  by (simp add: roundTiesToEven_def)

lemma fl_at_60: "fl (7 / 10) = (3152519739159347 / 4503599627370496)"
  using fl_eqI[of "- 1" "(7 / 10)" 6305039478318694]
  by (simp add: roundTiesToEven_def)

lemma fl_at_61: "fsub (4597424619607381 / 70368744177664) (4597424619607381 / 70368744177664) = 0"
  by (simp add: fsub_def)

lemma fl_at_62: "fmul 0 150 = 0"
  by (simp add: fmul_def)

lemma fl_at_63: "fsub 200 100 = 100"
  by (simp add: fsub_def)

lemma fl_at_64: "fmul 100 (8115861828490581 / 70368744177664) = (3170258526754133 / 274877906944)"
  unfolding fmul_def
  using fl_eqI[of 13 "100 * (8115861828490581 / 70368744177664)" 6340517053508266]
  by (simp add: roundTiesToEven_def)

lemma fl_at_65: "fmul 200 (4597424619607381 / 70368744177664) = (7183475968136533 / 549755813888)"
  unfolding fmul_def
  using fl_eqI[of 13 "200 * (4597424619607381 / 70368744177664)" 7183475968136533]
  by (simp add: roundTiesToEven_def)

lemma fl_at_66: "fmul (4597424619607381 / 70368744177664) 100 = (7183475968136533 / 1099511627776)"
  unfolding fmul_def
  using fl_eqI[of 12 "(4597424619607381 / 70368744177664) * 100" 7183475968136533]
  by (simp add: roundTiesToEven_def)

lemma fl_at_67: "fsub 0 (3170258526754133 / 274877906944) = (- (3170258526754133 / 274877906944))"
  unfolding fsub_def
  using fl_eqI[of 13 "0 - (3170258526754133 / 274877906944)" "- 6340517053508266"]
  by (simp add: roundTiesToEven_def)

lemma fl_at_68: "fadd (- (3170258526754133 / 274877906944)) (7183475968136533 / 549755813888) = (842958914628267 / 549755813888)"
  unfolding fadd_def
  using fl_eqI[of 10 "(- (3170258526754133 / 274877906944)) + (7183475968136533 / 549755813888)" 6743671317026136]
  by (simp add: roundTiesToEven_def)

lemma fl_at_69: "fsub (842958914628267 / 549755813888) (7183475968136533 / 1099511627776) = (- (5497558138879999 / 1099511627776))"
  unfolding fsub_def
  using fl_eqI[of 12 "(842958914628267 / 549755813888) - (7183475968136533 / 1099511627776)" "- 5497558138879999"]
  by (simp add: roundTiesToEven_def)

lemma fl_at_70: "fsub 100 200 = (- 100)"
  by (simp add: fsub_def)

lemma fl_at_71: "fdiv (5497558138879999 / 1099511627776) 100 = (7036874417766399 / 140737488355328)"
  unfolding fdiv_def
  using fl_eqI[of 5 "(5497558138879999 / 1099511627776) / 100" 7036874417766399]
  by (simp add: roundTiesToEven_def)

lemma fl_at_72: "fsub 100 150 = (- 50)"
  by (simp add: fsub_def)

lemma fl_at_73: "fsub (4597424619607381 / 70368744177664) (8115861828490581 / 70368744177664) = (- 50)"
  by (simp add: fsub_def)

lemma fl_at_74: "fdiv 50 50 = 1"
  by (simp add: fdiv_def)

lemma fl_at_75: "fadd 0 1 = 1"
  by (simp add: fadd_def)

lemma fl_at_76: "fsub 1 1 = 0"
  by (simp add: fsub_def)

lemma fl_at_77: "fadd 1 1 = 2"
  by (simp add: fadd_def)

lemma fl_at_78: "fsqrt 2 = (6369051672525773 / 4503599627370496)"
  using fsqrt_evalI[of 6369051672525773 0 "2"]
  by (simp add: power2_eq_square)

lemma fl_at_79: "fmul (6369051672525773 / 4503599627370496) 50 = (621977702395095 / 8796093022208)"
  unfolding fmul_def
  using fl_eqI[of 6 "(6369051672525773 / 4503599627370496) * 50" 4975821619160760]
  by (simp add: roundTiesToEven_def)

lemma fl_at_80: "hypot (- 50) (- 50) = (621977702395095 / 8796093022208)"
  by (rule hypot_evalI[where a' = "50" and b' = "50" and m = "50",
        OF _ _ _ _ fl_at_74 fl_at_47 fl_at_48 fl_at_75 fl_at_48 fl_at_76 fl_at_74 fl_at_47 fl_at_48 fl_at_77 fl_at_78 fl_at_79])
    simp_all

lemma fl_at_81: "fsub 150 200 = (- 50)"
  by (simp add: fsub_def)

lemma fl_at_82: "fsub (8115861828490581 / 70368744177664) (4597424619607381 / 70368744177664) = 50"
  by (simp add: fsub_def)

lemma fl_at_83: "hypot (- 50) 50 = (621977702395095 / 8796093022208)"
  by (rule hypot_evalI[where a' = "50" and b' = "50" and m = "50",
        OF _ _ _ _ fl_at_74 fl_at_47 fl_at_48 fl_at_75 fl_at_48 fl_at_76 fl_at_74 fl_at_47 fl_at_48 fl_at_77 fl_at_78 fl_at_79])
    simp_all

lemma fl_at_84: "fadd (621977702395095 / 8796093022208) (621977702395095 / 8796093022208) = (621977702395095 / 4398046511104)"
  unfolding fadd_def
  using fl_eqI[of 7 "(621977702395095 / 8796093022208) + (621977702395095 / 8796093022208)" 4975821619160760]
  by (simp add: roundTiesToEven_def)

lemma fl_at_85: "fsub (621977702395095 / 4398046511104) 100 = (182173051284695 / 4398046511104)"
  unfolding fsub_def
  using fl_eqI[of 5 "(621977702395095 / 4398046511104) - 100" 5829537641110240]
  by (simp add: roundTiesToEven_def)

lemma fl_at_86: "fsub 1 (3152519739159347 / 4503599627370496) = (1351079888211149 / 4503599627370496)"
  unfolding fsub_def
  using fl_eqI[of "- 2" "1 - (3152519739159347 / 4503599627370496)" 5404319552844596]
  by (simp add: roundTiesToEven_def)

lemma fl_at_87: "fadd 1 (3152519739159347 / 4503599627370496) = (7656119366529843 / 4503599627370496)"
  unfolding fadd_def
  using fl_eqI[of 0 "1 + (3152519739159347 / 4503599627370496)" 7656119366529843]
  by (simp add: roundTiesToEven_def)

lemma fl_at_88: "fmul (621977702395095 / 8796093022208) (1351079888211149 / 4503599627370496) = (5970985942992913 / 281474976710656)"
  unfolding fmul_def
  using fl_eqI[of 4 "(621977702395095 / 8796093022208) * (1351079888211149 / 4503599627370496)" 5970985942992913]
  by (simp add: roundTiesToEven_def)

lemma fl_at_89: "fmul (621977702395095 / 8796093022208) (7656119366529843 / 4503599627370496) = (2114724188143323 / 17592186044416)"
  unfolding fmul_def
  using fl_eqI[of 6 "(621977702395095 / 8796093022208) * (7656119366529843 / 4503599627370496)" 8458896752573292]
  by (simp add: roundTiesToEven_def)

lemma fl_at_90: "fmul (5970985942992913 / 281474976710656) 2 = (5970985942992913 / 140737488355328)"
  unfolding fmul_def
  using fl_eqI[of 5 "(5970985942992913 / 281474976710656) * 2" 5970985942992913]
  by (simp add: roundTiesToEven_def)

lemma fl_at_91: "fmul (2114724188143323 / 17592186044416) 2 = (2114724188143323 / 8796093022208)"
  unfolding fmul_def
  using fl_eqI[of 7 "(2114724188143323 / 17592186044416) * 2" 8458896752573292]
  by (simp add: roundTiesToEven_def)

lemma fl_at_92: "fsub 50 106 = (- 56)"
  by (simp add: fsub_def)

lemma fl_at_93: "hypot (- 56) 0 = 56"
  by (simp add: hypot_axis_x)

lemma fl_at_94: "fsub 0 106 = (- 106)"
  by (simp add: fsub_def)

lemma fl_at_95: "hypot (- 106) 0 = 106"
  by (simp add: hypot_axis_x)

lemma fl_at_96: "fsub 1 (1 / 10) = (8106479329266893 / 9007199254740992)"
  unfolding fsub_def
  using fl_eqI[of "- 1" "1 - (1 / 10)" 8106479329266893]
  by (simp add: roundTiesToEven_def)

lemma fl_at_97: "fadd 1 (1 / 10) = (2476979795053773 / 2251799813685248)"
  unfolding fadd_def
  using fl_eqI[of 0 "1 + (1 / 10)" 4953959590107546]
  by (simp add: roundTiesToEven_def)

lemma fl_at_98: "fmul 50 (8106479329266893 / 9007199254740992) = 45"
  unfolding fmul_def
  using fl_eqI[of 5 "50 * (8106479329266893 / 9007199254740992)" 6333186975989760]
  by (simp add: roundTiesToEven_def)

lemma fl_at_99: "fmul 50 (2476979795053773 / 2251799813685248) = (7740561859543041 / 140737488355328)"
  unfolding fmul_def
  using fl_eqI[of 5 "50 * (2476979795053773 / 2251799813685248)" 7740561859543041]
  by (simp add: roundTiesToEven_def)

lemma fl_at_100: "fmul 45 2 = 90"
  by (simp add: fmul_def)

lemma fl_at_101: "fmul (7740561859543041 / 140737488355328) 2 = (7740561859543041 / 70368744177664)"
  unfolding fmul_def
  using fl_eqI[of 6 "(7740561859543041 / 140737488355328) * 2" 7740561859543041]
  by (simp add: roundTiesToEven_def)

lemma fl_at_102: "fl (1 / 10) = (3602879701896397 / 36028797018963968)"
  using fl_eqI[of "- 4" "(1 / 10)" 7205759403792794]
  by (simp add: roundTiesToEven_def)

lemma fl_at_103: "fsub 1 (3602879701896397 / 36028797018963968) = (8106479329266893 / 9007199254740992)"
  unfolding fsub_def
  using fl_eqI[of "- 1" "1 - (3602879701896397 / 36028797018963968)" 8106479329266893]
  by (simp add: roundTiesToEven_def)

lemma fl_at_104: "fadd 1 (3602879701896397 / 36028797018963968) = (2476979795053773 / 2251799813685248)"
  unfolding fadd_def
  using fl_eqI[of 0 "1 + (3602879701896397 / 36028797018963968)" 4953959590107546]
  by (simp add: roundTiesToEven_def)

lemma fl_at_105: "fsub 50 105 = (- 55)"
  by (simp add: fsub_def)

lemma fl_at_106: "hypot (- 55) 0 = 55"
  by (simp add: hypot_axis_x)

lemma fl_at_107: "fsub 0 105 = (- 105)"
  by (simp add: fsub_def)

lemma fl_at_108: "hypot (- 105) 0 = 105"
  by (simp add: hypot_axis_x)

lemma fl_at_109: "fsub 50 95 = (- 45)"
  by (simp add: fsub_def)

lemma fl_at_110: "hypot (- 45) 0 = 45"
  by (simp add: hypot_axis_x)

lemma fl_at_111: "fsub 0 95 = (- 95)"
  by (simp add: fsub_def)

lemma fl_at_112: "hypot (- 95) 0 = 95"
  by (simp add: hypot_axis_x)

lemma fl_at_113: "fsub 50 104 = (- 54)"
  by (simp add: fsub_def)

lemma fl_at_114: "hypot (- 54) 0 = 54"
  by (simp add: hypot_axis_x)

lemma fl_at_115: "fsub 0 104 = (- 104)"
  by (simp add: fsub_def)

lemma fl_at_116: "hypot (- 104) 0 = 104"
  by (simp add: hypot_axis_x)

lemma fl_at_117: "fsub 50 120 = (- 70)"
  by (simp add: fsub_def)

lemma fl_at_118: "hypot (- 70) 0 = 70"
  by (simp add: hypot_axis_x)

lemma fl_at_119: "fsub 0 120 = (- 120)"
  by (simp add: fsub_def)

lemma fl_at_120: "hypot (- 120) 0 = 120"
  by (simp add: hypot_axis_x)

lemma fl_at_121: "fdiv 126 1 = 126"
  by (simp add: fdiv_def)

lemma fl_at_122: "fdiv 1024 1 = 1024"
  by (simp add: fdiv_def)

lemma fl_at_123: "fsub 128 126 = 2"
  by (simp add: fsub_def)

lemma fl_at_124: "fsub 1024 1024 = 0"
  by (simp add: fsub_def)

lemma fl_at_125: "hypot 2 0 = 2"
  by (simp add: hypot_axis_x)

lemma fl_at_126: "fadd 126 128 = 254"
  by (simp add: fadd_def)

lemma fl_at_127: "fadd 1024 1024 = 2048"
  by (simp add: fadd_def)

lemma fl_at_128: "fdiv 254 2 = 127"
  by (simp add: fdiv_def)

lemma fl_at_129: "fdiv 2048 2 = 1024"
  by (simp add: fdiv_def)

lemma fl_at_130: "fsub 130 127 = 3"
  by (simp add: fsub_def)

lemma fl_at_131: "hypot 3 0 = 3"
  by (simp add: hypot_axis_x)

lemma fl_at_132: "fadd 254 130 = 384"
  by (simp add: fadd_def)

lemma fl_at_133: "fadd 2048 1024 = 3072"
  by (simp add: fadd_def)

lemma fl_at_134: "fdiv 384 3 = 128"
  by (simp add: fdiv_def)

lemma fl_at_135: "fdiv 3072 3 = 1024"
  by (simp add: fdiv_def)

lemma fl_at_136: "fsub 132 128 = 4"
  by (simp add: fsub_def)

lemma fl_at_137: "hypot 4 0 = 4"
  by (simp add: hypot_axis_x)

lemma fl_at_138: "fadd 384 132 = 516"
  by (simp add: fadd_def)

lemma fl_at_139: "fadd 3072 1024 = 4096"
  by (simp add: fadd_def)

lemma fl_at_140: "fdiv 516 4 = 129"
  by (simp add: fdiv_def)

lemma fl_at_141: "fdiv 4096 4 = 1024"
  by (simp add: fdiv_def)

lemma fl_at_142: "fsub 128 129 = (- 1)"
  by (simp add: fsub_def)

lemma fl_at_143: "fsub 1026 1024 = 2"
  by (simp add: fsub_def)

lemma fl_at_144: "fdiv 1 2 = (1 / 2)"
  unfolding fdiv_def
  using fl_eqI[of "- 1" "1 / 2" 4503599627370496]
  by (simp add: roundTiesToEven_def)

lemma fl_at_145: "fmul (1 / 2) (1 / 2) = (1 / 4)"
  unfolding fmul_def
  using fl_eqI[of "- 2" "(1 / 2) * (1 / 2)" 4503599627370496]
  by (simp add: roundTiesToEven_def)

lemma fl_at_146: "fsub (1 / 4) 0 = (1 / 4)"
  unfolding fsub_def
  using fl_eqI[of "- 2" "(1 / 4) - 0" 4503599627370496]
  by (simp add: roundTiesToEven_def)

lemma fl_at_147: "fadd 0 (1 / 4) = (1 / 4)"
  unfolding fadd_def
  using fl_eqI[of "- 2" "0 + (1 / 4)" 4503599627370496]
  by (simp add: roundTiesToEven_def)

lemma fl_at_148: "fsub (1 / 4) (1 / 4) = 0"
  by (simp add: fsub_def)

lemma fl_at_149: "fdiv 2 2 = 1"
  by (simp add: fdiv_def)

lemma fl_at_150: "fadd (1 / 4) 1 = (5 / 4)"
  unfolding fadd_def
  using fl_eqI[of 0 "(1 / 4) + 1" 5629499534213120]
  by (simp add: roundTiesToEven_def)

lemma fl_at_151: "fsqrt (5 / 4) = (629397181890197 / 562949953421312)"
  using fsqrt_evalI[of 5035177455121576 0 "(5 / 4)"]
  by (simp add: power2_eq_square)

lemma fl_at_152: "fmul (629397181890197 / 562949953421312) 2 = (629397181890197 / 281474976710656)"
  unfolding fmul_def
  using fl_eqI[of 1 "(629397181890197 / 562949953421312) * 2" 5035177455121576]
  by (simp add: roundTiesToEven_def)

lemma fl_at_153: "hypot (- 1) 2 = (629397181890197 / 281474976710656)"
  by (rule hypot_evalI[where a' = "1" and b' = "2" and m = "2",
        OF _ _ _ _ fl_at_144 fl_at_145 fl_at_146 fl_at_147 fl_at_146 fl_at_148 fl_at_149 fl_at_47 fl_at_48 fl_at_150 fl_at_151 fl_at_152])
    simp_all

lemma fl_at_154: "fadd 516 128 = 644"
  by (simp add: fadd_def)

lemma fl_at_155: "fadd 4096 1026 = 5122"
  by (simp add: fadd_def)

lemma fl_at_156: "fdiv 644 5 = (2265873562520781 / 17592186044416)"
  unfolding fdiv_def
  using fl_eqI[of 7 "644 / 5" 4531747125041562]
  by (simp add: roundTiesToEven_def)

lemma fl_at_157: "fdiv 5122 5 = (2252679422987469 / 2199023255552)"
  unfolding fdiv_def
  using fl_eqI[of 10 "5122 / 5" 4505358845974938]
  by (simp add: roundTiesToEven_def)

lemma fl_at_158: "fsub 164 (2265873562520781 / 17592186044416) = (619244948763443 / 17592186044416)"
  unfolding fsub_def
  using fl_eqI[of 5 "164 - (2265873562520781 / 17592186044416)" 4953959590107544]
  by (simp add: roundTiesToEven_def)

lemma fl_at_159: "fsub 1118 (2252679422987469 / 2199023255552) = (205828576719667 / 2199023255552)"
  unfolding fsub_def
  using fl_eqI[of 6 "1118 - (2252679422987469 / 2199023255552)" 6586514455029344]
  by (simp add: roundTiesToEven_def)

lemma fl_at_160: "fdiv (619244948763443 / 17592186044416) (205828576719667 / 2199023255552) = (1693661398327367 / 4503599627370496)"
  unfolding fdiv_def
  using fl_eqI[of "- 2" "(619244948763443 / 17592186044416) / (205828576719667 / 2199023255552)" 6774645593309468]
  by (simp add: roundTiesToEven_def)

lemma fl_at_161: "fmul (1693661398327367 / 4503599627370496) (1693661398327367 / 4503599627370496) = (2547729966714673 / 18014398509481984)"
  unfolding fmul_def
  using fl_eqI[of "- 3" "(1693661398327367 / 4503599627370496) * (1693661398327367 / 4503599627370496)" 5095459933429346]
  by (simp add: roundTiesToEven_def)

lemma fl_at_162: "fsub (2547729966714673 / 18014398509481984) 0 = (2547729966714673 / 18014398509481984)"
  unfolding fsub_def
  using fl_eqI[of "- 3" "(2547729966714673 / 18014398509481984) - 0" 5095459933429346]
  by (simp add: roundTiesToEven_def)

lemma fl_at_163: "fadd 0 (2547729966714673 / 18014398509481984) = (2547729966714673 / 18014398509481984)"
  unfolding fadd_def
  using fl_eqI[of "- 3" "0 + (2547729966714673 / 18014398509481984)" 5095459933429346]
  by (simp add: roundTiesToEven_def)

lemma fl_at_164: "fsub (2547729966714673 / 18014398509481984) (2547729966714673 / 18014398509481984) = 0"
  by (simp add: fsub_def)

lemma fl_at_165: "fdiv (205828576719667 / 2199023255552) (205828576719667 / 2199023255552) = 1"
  by (simp add: fdiv_def)

lemma fl_at_166: "fadd (2547729966714673 / 18014398509481984) 1 = (1285133029762291 / 1125899906842624)"
  unfolding fadd_def
  using fl_eqI[of 0 "(2547729966714673 / 18014398509481984) + 1" 5140532119049164]
  by (simp add: roundTiesToEven_def)

lemma fl_at_167: "fsqrt (1285133029762291 / 1125899906842624) = (4811538063430017 / 4503599627370496)"
  using fsqrt_evalI[of 4811538063430017 0 "(1285133029762291 / 1125899906842624)"]
  by (simp add: power2_eq_square)

lemma fl_at_168: "fmul (4811538063430017 / 4503599627370496) (205828576719667 / 2199023255552) = (7036874417766393 / 70368744177664)"
  unfolding fmul_def
  using fl_eqI[of 6 "(4811538063430017 / 4503599627370496) * (205828576719667 / 2199023255552)" 7036874417766393]
  by (simp add: roundTiesToEven_def)

lemma fl_at_169: "hypot (619244948763443 / 17592186044416) (205828576719667 / 2199023255552) = (7036874417766393 / 70368744177664)"
  by (rule hypot_evalI[where a' = "(619244948763443 / 17592186044416)" and b' = "(205828576719667 / 2199023255552)" and m = "(205828576719667 / 2199023255552)",
        OF _ _ _ _ fl_at_160 fl_at_161 fl_at_162 fl_at_163 fl_at_162 fl_at_164 fl_at_165 fl_at_47 fl_at_48 fl_at_166 fl_at_167 fl_at_168])
    simp_all

lemma fl_at_170: "fadd 644 164 = 808"
  by (simp add: fadd_def)

lemma fl_at_171: "fadd 5122 1118 = 6240"
  by (simp add: fadd_def)

lemma fl_at_172: "fdiv 0 1 = 0"
  by (simp add: fdiv_def)

lemma fl_at_173: "hypot 100 0 = 100"
  by (simp add: hypot_axis_x)

lemma fl_at_174: "fdiv 10 2 = 5"
  by (simp add: fdiv_def)

lemma fl_at_175: "fdiv 0 2 = 0"
  by (simp add: fdiv_def)

lemma fl_at_176: "fsub 700 5 = 695"
  by (simp add: fsub_def)

lemma fl_at_177: "hypot 695 0 = 695"
  by (simp add: hypot_axis_x)

lemma fl_at_178: "fdiv 900 3 = 300"
  by (simp add: fdiv_def)

lemma fl_at_179: "fdiv 0 3 = 0"
  by (simp add: fdiv_def)

lemma fl_at_180: "fsub 700 300 = 400"
  by (simp add: fsub_def)

lemma fl_at_181: "hypot 400 0 = 400"
  by (simp add: hypot_axis_x)

lemma fl_at_182: "fsub 302 5 = 297"
  by (simp add: fsub_def)

lemma fl_at_183: "hypot 297 0 = 297"
  by (simp add: hypot_axis_x)

lemma fl_at_184: "fsub 302 300 = 2"
  by (simp add: fsub_def)

lemma fl_at_185: "fadd 900 302 = 1202"
  by (simp add: fadd_def)

lemma fl_at_186: "fdiv 1500 3 = 500"
  by (simp add: fdiv_def)

lemma fl_at_187: "fsub 2 0 = 2"
  by (simp add: fsub_def)

lemma fl_at_188: "fadd 0 2 = 2"
  by (simp add: fadd_def)

lemma fl_at_189: "fl (117 / 10) = (3293257227514675 / 281474976710656)"
  using fl_eqI[of 3 "(117 / 10)" 6586514455029350]
  by (simp add: roundTiesToEven_def)

lemma fl_at_190: "fdiv (3293257227514675 / 281474976710656) 180 = (1170935903116329 / 18014398509481984)"
  unfolding fdiv_def
  using fl_eqI[of "- 4" "(3293257227514675 / 281474976710656) / 180" 4683743612465316]
  by (simp add: roundTiesToEven_def)

lemma fl_at_191: "fmul (1170935903116329 / 18014398509481984) 100 = (13 / 2)"
  unfolding fmul_def
  using fl_eqI[of 2 "(1170935903116329 / 18014398509481984) * 100" 7318349394477056]
  by (simp add: roundTiesToEven_def)

lemma fl_at_192: "fsub 0 10 = (- 10)"
  by (simp add: fsub_def)

lemma fl_at_193: "fsub 0 12 = (- 12)"
  by (simp add: fsub_def)

lemma fl_at_194: "fdiv 10 12 = (7505999378950827 / 9007199254740992)"
  unfolding fdiv_def
  using fl_eqI[of "- 1" "10 / 12" 7505999378950827]
  by (simp add: roundTiesToEven_def)

lemma fl_at_195: "fmul (7505999378950827 / 9007199254740992) (7505999378950827 / 9007199254740992) = (6254999482459023 / 9007199254740992)"
  unfolding fmul_def
  using fl_eqI[of "- 1" "(7505999378950827 / 9007199254740992) * (7505999378950827 / 9007199254740992)" 6254999482459023]
  by (simp add: roundTiesToEven_def)

lemma fl_at_196: "fsub (6254999482459023 / 9007199254740992) 0 = (6254999482459023 / 9007199254740992)"
  unfolding fsub_def
  using fl_eqI[of "- 1" "(6254999482459023 / 9007199254740992) - 0" 6254999482459023]
  by (simp add: roundTiesToEven_def)

lemma fl_at_197: "fadd 0 (6254999482459023 / 9007199254740992) = (6254999482459023 / 9007199254740992)"
  unfolding fadd_def
  using fl_eqI[of "- 1" "0 + (6254999482459023 / 9007199254740992)" 6254999482459023]
  by (simp add: roundTiesToEven_def)

lemma fl_at_198: "fsub (6254999482459023 / 9007199254740992) (6254999482459023 / 9007199254740992) = 0"
  by (simp add: fsub_def)

lemma fl_at_199: "fdiv 12 12 = 1"
  by (simp add: fdiv_def)

lemma fl_at_200: "fadd (6254999482459023 / 9007199254740992) 1 = (953887421075001 / 562949953421312)"
  unfolding fadd_def
  using fl_eqI[of 0 "(6254999482459023 / 9007199254740992) + 1" 7631099368600008]
  by (simp add: roundTiesToEven_def)

lemma fl_at_201: "fsqrt (953887421075001 / 562949953421312) = (5862372921680625 / 4503599627370496)"
  using fsqrt_evalI[of 5862372921680625 0 "(953887421075001 / 562949953421312)"]
  by (simp add: power2_eq_square)

lemma fl_at_202: "fmul (5862372921680625 / 4503599627370496) 12 = (4396779691260469 / 281474976710656)"
  unfolding fmul_def
  using fl_eqI[of 3 "(5862372921680625 / 4503599627370496) * 12" 8793559382520938]
  by (simp add: roundTiesToEven_def)

lemma fl_at_203: "hypot (- 10) (- 12) = (4396779691260469 / 281474976710656)"
  by (rule hypot_evalI[where a' = "10" and b' = "12" and m = "12",
        OF _ _ _ _ fl_at_194 fl_at_195 fl_at_196 fl_at_197 fl_at_196 fl_at_198 fl_at_199 fl_at_47 fl_at_48 fl_at_200 fl_at_201 fl_at_202])
    simp_all

lemma fl_at_204: "fsub 10 25 = (- 15)"
  by (simp add: fsub_def)

lemma fl_at_205: "fsub 12 30 = (- 18)"
  by (simp add: fsub_def)

lemma fl_at_206: "fdiv 15 18 = (7505999378950827 / 9007199254740992)"
  unfolding fdiv_def
  using fl_eqI[of "- 1" "15 / 18" 7505999378950827]
  by (simp add: roundTiesToEven_def)

lemma fl_at_207: "fdiv 18 18 = 1"
  by (simp add: fdiv_def)

lemma fl_at_208: "fmul (5862372921680625 / 4503599627370496) 18 = (6595169536890703 / 281474976710656)"
  unfolding fmul_def
  using fl_eqI[of 4 "(5862372921680625 / 4503599627370496) * 18" 6595169536890703]
  by (simp add: roundTiesToEven_def)

lemma fl_at_209: "hypot (- 15) (- 18) = (6595169536890703 / 281474976710656)"
  by (rule hypot_evalI[where a' = "15" and b' = "18" and m = "18",
        OF _ _ _ _ fl_at_206 fl_at_195 fl_at_196 fl_at_197 fl_at_196 fl_at_198 fl_at_207 fl_at_47 fl_at_48 fl_at_200 fl_at_201 fl_at_208])
    simp_all

lemma fl_at_210: "fsub 0 25 = (- 25)"
  by (simp add: fsub_def)

lemma fl_at_211: "fdiv 25 30 = (7505999378950827 / 9007199254740992)"
  unfolding fdiv_def
  using fl_eqI[of "- 1" "25 / 30" 7505999378950827]
  by (simp add: roundTiesToEven_def)

lemma fl_at_212: "fdiv 30 30 = 1"
  by (simp add: fdiv_def)

lemma fl_at_213: "fmul (5862372921680625 / 4503599627370496) 30 = (2747987307037793 / 70368744177664)"
  unfolding fmul_def
  using fl_eqI[of 5 "(5862372921680625 / 4503599627370496) * 30" 5495974614075586]
  by (simp add: roundTiesToEven_def)

lemma fl_at_214: "hypot (- 25) (- 30) = (2747987307037793 / 70368744177664)"
  by (rule hypot_evalI[where a' = "25" and b' = "30" and m = "30",
        OF _ _ _ _ fl_at_211 fl_at_195 fl_at_196 fl_at_197 fl_at_196 fl_at_198 fl_at_212 fl_at_47 fl_at_48 fl_at_200 fl_at_201 fl_at_213])
    simp_all

lemma fl_at_215: "fsub 1 (1 / 2) = (1 / 2)"
  unfolding fsub_def
  using fl_eqI[of "- 1" "1 - (1 / 2)" 4503599627370496]
  by (simp add: roundTiesToEven_def)

lemma fl_at_216: "fadd 1 (1 / 2) = (3 / 2)"
  unfolding fadd_def
  using fl_eqI[of 0 "1 + (1 / 2)" 6755399441055744]
  by (simp add: roundTiesToEven_def)

lemma fl_at_217: "fmul (4396779691260469 / 281474976710656) (1 / 2) = (4396779691260469 / 562949953421312)"
  unfolding fmul_def
  using fl_eqI[of 2 "(4396779691260469 / 281474976710656) * (1 / 2)" 8793559382520938]
  by (simp add: roundTiesToEven_def)

lemma fl_at_218: "fmul (4396779691260469 / 281474976710656) (3 / 2) = (412198096055669 / 17592186044416)"
  unfolding fmul_def
  using fl_eqI[of 4 "(4396779691260469 / 281474976710656) * (3 / 2)" 6595169536890704]
  by (simp add: roundTiesToEven_def)

lemma fl_at_219: "fmul (4396779691260469 / 562949953421312) 2 = (4396779691260469 / 281474976710656)"
  unfolding fmul_def
  using fl_eqI[of 3 "(4396779691260469 / 562949953421312) * 2" 8793559382520938]
  by (simp add: roundTiesToEven_def)

lemma fl_at_220: "fmul (412198096055669 / 17592186044416) 2 = (412198096055669 / 8796093022208)"
  unfolding fmul_def
  using fl_eqI[of 5 "(412198096055669 / 17592186044416) * 2" 6595169536890704]
  by (simp add: roundTiesToEven_def)

lemma fl_at_221: "fsub 90 90 = 0"
  by (simp add: fsub_def)

lemma fl_at_222: "fdiv 0 180 = 0"
  by (simp add: fdiv_def)

lemma fl_at_223: "fmul 0 100 = 0"
  by (simp add: fmul_def)

lemma fl_at_224: "fdiv 45 180 = (1 / 4)"
  unfolding fdiv_def
  using fl_eqI[of "- 2" "45 / 180" 4503599627370496]
  by (simp add: roundTiesToEven_def)

lemma fl_at_225: "fmul (1 / 4) 100 = 25"
  by (simp add: fmul_def)

lemma stride2_1: "stride2 (Suc 0) = [0]"
  by (simp add: stride2_def)

lemma stride2_3: "stride2 3 = [0, 2]"
proof -
  have "[0 ..< (2::nat)] = [0, 1]" by (simp add: upt_conv_Cons)
  then show ?thesis by (simp add: stride2_def)
qed

section \<open>Colour tests: results\<close>

text \<open>
  C10. The triple \<open>r = 200\<close>, \<open>g = 0\<close>, \<open>b = 90\<close> passes both \<open>isRed\<close> and \<open>isPink\<close>, so
  the two tests are not mutually exclusive; a frame made of this one pixel gives a red
  centroid and a pink centroid, both at the pixel.
\<close>

theorem isRed_isPink_overlap:
  "isRed (channel 200) (channel 0) (channel 90) \<and>
   isPink (channel 200) (channel 0) (channel 90) \<and>
   clusterColor \<lparr>width = 1, height = 1, data = [200, 0, 90, 255]\<rparr> isRed
     = Some \<lparr>px = 0, py = 0\<rparr> \<and>
   clusterColor \<lparr>width = 1, height = 1, data = [200, 0, 90, 255]\<rparr> isPink
     = Some \<lparr>px = 0, py = 0\<rparr>"
  by (simp add: isRed_def isPink_def channel_def clusterColor_def scanClusters_def
      stride2_1 scanPixel_def sample_def largestCentroid_def fdiv_def)

text \<open>
  C5, as the claim states it, fails: \<open>isPink\<close> accepts \<open>r = 200\<close>, \<open>g = 0\<close>, \<open>b = 150\<close>,
  whose blue channel is not below half of the red one.
\<close>

theorem isPink_blue_not_below_half:
  "\<not> (isPink (channel 200) (channel 0) (channel 150) \<longleftrightarrow>
        (channel 0 \<le> channel 200 \<and> channel 150 \<le> channel 200 \<and> 110 < channel 200 \<and>
         channel 0 < channel 200 / 2 \<and> channel 150 < channel 200 / 2 \<and>
         80 < channel 150))"
  by (simp add: isPink_def channel_def)

text \<open>
  C5, amended. For every 8-bit triple, \<open>isPink\<close> holds exactly when the red channel is
  the maximum, it is at least 110, the green channel is below half of the red one, and
  the blue channel is above 80. The blue channel is not compared with half of the red
  one.
\<close>

theorem isPink_iff:
  fixes r g b :: "8 word"
  shows "isPink (channel r) (channel g) (channel b) \<longleftrightarrow>
     (channel g \<le> channel r \<and> channel b \<le> channel r \<and> 110 \<le> channel r \<and>
      channel g < channel r / 2 \<and> 80 < channel b)"
  by (auto simp add: isPink_def Let_def max_def)

section \<open>Clustering: results\<close>

lemma scanPixel_matches:
  "scanPixel img f y x cs = (if matches img f (x, y) then addPixel (x, y) cs else cs)"
  by (simp add: scanPixel_def matches_def addPixel_def CLUSTER_RADIUS_def Let_def split: option.splits)

lemma fold_row:
  "fold (\<lambda>x. scanPixel img f y x) xs cs =
   fold addPixel (filter (matches img f) (map (\<lambda>x. (x, y)) xs)) cs"
  by (induction xs arbitrary: cs) (simp_all add: scanPixel_matches)

lemma fold_rows:
  "fold (\<lambda>y. fold (\<lambda>x. scanPixel img f y x) xs) ys cs =
   fold addPixel (filter (matches img f) (concat (map (\<lambda>y. map (\<lambda>x. (x, y)) xs) ys))) cs"
  by (induction ys arbitrary: cs) (simp_all add: fold_row)

lemma scanClusters_matched:
  "scanClusters img f = fold addPixel (matchedPixels img f) []"
  by (simp add: scanClusters_def matchedPixels_def scanOrder_def fold_rows)

lemma addToClusters_nonempty: "addToClusters cs x y t \<noteq> []"
  by (cases cs) (simp_all add: Let_def)

lemma fold_addPixel_nonempty: "cs \<noteq> [] \<Longrightarrow> fold addPixel ps cs \<noteq> []"
  by (induction ps arbitrary: cs) (simp_all add: addPixel_def addToClusters_nonempty)

lemma fold_addPixel_empty_iff: "fold addPixel ps [] = [] \<longleftrightarrow> ps = []"
proof (cases ps)
  case Nil
  then show ?thesis by simp
next
  case (Cons p ps')
  have "addPixel p [] \<noteq> []" by (simp add: addPixel_def)
  then have "fold addPixel ps' (addPixel p []) \<noteq> []" by (rule fold_addPixel_nonempty)
  with Cons show ?thesis by simp
qed

lemma largestCentroid_None: "largestCentroid cs = None \<longleftrightarrow> cs = []"
  by (cases cs) (simp_all add: largestCentroid_def Let_def)

lemma best_split:
  fixes b :: cluster
  shows "\<exists>ys c zs. b # cs = ys @ c # zs \<and>
     fold (\<lambda>cluster best. if count cluster > count best then cluster else best) cs b = c \<and>
     (\<forall>a\<in>set ys. count a < count c) \<and> (\<forall>a\<in>set zs. count a \<le> count c)"
proof (induction cs arbitrary: b)
  case Nil
  show ?case
  proof (intro exI conjI)
    show "[b] = [] @ b # []" by simp
    show "fold (\<lambda>cluster best. if count cluster > count best then cluster else best) [] b = b"
      by simp
    show "\<forall>a\<in>set []. count a < count b" by simp
    show "\<forall>a\<in>set []. count a \<le> count b" by simp
  qed
next
  case (Cons a cs)
  let ?f = "\<lambda>cluster best. if count cluster > count best then cluster else (best::cluster)"
  show ?case
  proof (cases "count a > count b")
    case True
    from Cons.IH[of a] obtain ys c zs where
      s: "a # cs = ys @ c # zs" and f: "fold ?f cs a = c"
      and l: "\<forall>a\<in>set ys. count a < count c" and r: "\<forall>a\<in>set zs. count a \<le> count c"
      by (elim exE conjE) (rule that)
    have ac: "count a \<le> count c"
    proof (cases ys)
      case Nil
      with s show ?thesis by simp
    next
      case (Cons y ys')
      with s have "y = a" by simp
      with l Cons show ?thesis by simp
    qed
    show ?thesis
    proof (intro exI conjI)
      show "b # a # cs = (b # ys) @ c # zs" using s by simp
      show "fold ?f (a # cs) b = c" using True f by simp
      show "\<forall>a\<in>set (b # ys). count a < count c" using l True ac by simp
      show "\<forall>a\<in>set zs. count a \<le> count c" by (rule r)
    qed
  next
    case False
    from Cons.IH[of b] obtain ys c zs where
      s: "b # cs = ys @ c # zs" and f: "fold ?f cs b = c"
      and l: "\<forall>a\<in>set ys. count a < count c" and r: "\<forall>a\<in>set zs. count a \<le> count c"
      by (elim exE conjE) (rule that)
    have fb: "fold ?f (a # cs) b = c" using False f by simp
    show ?thesis
    proof (cases ys)
      case Nil
      with s have cb: "c = b" and zs: "zs = cs" by simp_all
      show ?thesis
      proof (intro exI conjI)
        show "b # a # cs = [] @ c # (a # zs)" using cb zs by simp
        show "fold ?f (a # cs) b = c" by (rule fb)
        show "\<forall>a\<in>set []. count a < count c" by simp
        show "\<forall>x\<in>set (a # zs). count x \<le> count c" using r False cb by simp
      qed
    next
      case (Cons y ys')
      with s have yb: "y = b" and cs: "cs = ys' @ c # zs" by simp_all
      have bc: "count b < count c" using l Cons yb by simp
      have ys': "\<forall>x\<in>set ys'. count x < count c" using l Cons by simp
      show ?thesis
      proof (intro exI conjI)
        show "b # a # cs = (b # a # ys') @ c # zs" using cs by simp
        show "fold ?f (a # cs) b = c" by (rule fb)
        show "\<forall>x\<in>set (b # a # ys'). count x < count c"
          using ys' bc False by simp
        show "\<forall>a\<in>set zs. count a \<le> count c" by (rule r)
      qed
    qed
  qed
qed

lemma largestCentroid_split:
  assumes "cs \<noteq> []"
  shows "\<exists>ys best zs. cs = ys @ best # zs \<and> (\<forall>c\<in>set ys. count c < count best) \<and>
           (\<forall>c\<in>set zs. count c \<le> count best) \<and> largestCentroid cs = Some (centroid best)"
proof -
  from assms obtain c0 rest where cs: "cs = c0 # rest" by (cases cs) simp_all
  let ?f = "\<lambda>cluster best. if count cluster > count best then cluster else (best::cluster)"
  from best_split[of c0 rest] obtain ys c zs where
    s: "c0 # rest = ys @ c # zs" and f: "fold ?f rest c0 = c"
    and l: "\<forall>a\<in>set ys. count a < count c" and r: "\<forall>a\<in>set zs. count a \<le> count c"
    by (elim exE conjE) (rule that)
  have "fold ?f cs c0 = c" using cs f by simp
  then have lc: "largestCentroid cs = Some (centroid c)"
    using cs by (simp add: largestCentroid_def centroid_def Let_def)
  show ?thesis
  proof (intro exI conjI)
    show "cs = ys @ c # zs" using cs s by simp
    show "\<forall>a\<in>set ys. count a < count c" by (rule l)
    show "\<forall>a\<in>set zs. count a \<le> count c" by (rule r)
    show "largestCentroid cs = Some (centroid c)" by (rule lc)
  qed
qed

lemma addToClusters_far:
  "\<forall>c\<in>set cs. \<not> distance \<lparr>px = x, py = y\<rparr> (centroid c) < t \<Longrightarrow>
   addToClusters cs x y t = cs @ [\<lparr>sumX = x, sumY = y, count = 1\<rparr>]"
  by (induction cs) (simp_all add: centroid_def Let_def)

lemma addToClusters_near:
  "\<forall>c\<in>set ys. \<not> distance \<lparr>px = x, py = y\<rparr> (centroid c) < t \<Longrightarrow>
   distance \<lparr>px = x, py = y\<rparr> (centroid c) < t \<Longrightarrow>
   addToClusters (ys @ c # zs) x y t =
     ys @ c\<lparr>sumX := fadd (sumX c) x, sumY := fadd (sumY c) y, count := count c + 1\<rparr> # zs"
  by (induction ys) (simp_all add: centroid_def Let_def)


text \<open>
  C2, as the claim states it, fails: whether a pixel joins a cluster is not decided by
  its distance from the centroid. The five red pixels \<open>(126,1024)\<close>, \<open>(128,1024)\<close>,
  \<open>(130,1024)\<close>, \<open>(132,1024)\<close>, \<open>(128,1026)\<close> form one cluster with the sums 644 and 5122.
  The pixel \<open>(164,1118)\<close> is at the distance 100 from its centroid \<open>(644/5, 5122/5)\<close>, and
  it is added to the cluster; the pixel \<open>(100,0)\<close> is at the distance 100 from the centroid
  of the cluster of the one pixel \<open>(0,0)\<close>, and it starts a new cluster.
\<close>

theorem addToClusters_at_distance_100:
  "fold addPixel [(126, 1024), (128, 1024), (130, 1024), (132, 1024), (128, 1026)] []
     = [\<lparr>sumX = 644, sumY = 5122, count = 5\<rparr>] \<and>
   exactDistance \<lparr>px = 164, py = 1118\<rparr> \<lparr>px = 644 / 5, py = 5122 / 5\<rparr> = 100 \<and>
   addToClusters [\<lparr>sumX = 644, sumY = 5122, count = 5\<rparr>] 164 1118 100
     = [\<lparr>sumX = 808, sumY = 6240, count = 6\<rparr>] \<and>
   exactDistance \<lparr>px = 100, py = 0\<rparr> \<lparr>px = 0 / 1, py = 0 / 1\<rparr> = 100 \<and>
   addToClusters [\<lparr>sumX = 0, sumY = 0, count = 1\<rparr>] 100 0 100
     = [\<lparr>sumX = 0, sumY = 0, count = 1\<rparr>, \<lparr>sumX = 100, sumY = 0, count = 1\<rparr>]"
proof -
  have a: "fold addPixel [(126, 1024), (128, 1024), (130, 1024), (132, 1024), (128, 1026)] []
      = [\<lparr>sumX = 644, sumY = 5122, count = 5\<rparr>]"
    by (simp add: addPixel_def distance_def
        fl_at_121 fl_at_122 fl_at_123 fl_at_124 fl_at_125 fl_at_126 fl_at_127 fl_at_128
        fl_at_129 fl_at_130 fl_at_131 fl_at_132 fl_at_133 fl_at_134 fl_at_135 fl_at_136
        fl_at_137 fl_at_138 fl_at_139 fl_at_140 fl_at_141 fl_at_142 fl_at_143 fl_at_153
        fl_at_154 fl_at_155)
  have sq: "(164 - 644 / 5)\<^sup>2 + (1118 - 5122 / 5)\<^sup>2 = (100::real)\<^sup>2"
    by (simp add: power2_eq_square)
  have "exactDistance \<lparr>px = 164, py = 1118\<rparr> \<lparr>px = 644 / 5, py = 5122 / 5\<rparr>
      = sqrt ((164 - 644 / 5)\<^sup>2 + (1118 - 5122 / 5)\<^sup>2)"
    by (simp add: exactDistance_def)
  also have "\<dots> = sqrt ((100::real)\<^sup>2)" by (simp only: sq)
  also have "\<dots> = 100" by simp
  finally have b: "exactDistance \<lparr>px = 164, py = 1118\<rparr> \<lparr>px = 644 / 5, py = 5122 / 5\<rparr> = 100" .
  have c: "addToClusters [\<lparr>sumX = 644, sumY = 5122, count = 5\<rparr>] 164 1118 100
      = [\<lparr>sumX = 808, sumY = 6240, count = 6\<rparr>]"
    by (simp add: distance_def
        fl_at_156 fl_at_157 fl_at_158 fl_at_159 fl_at_169 fl_at_170 fl_at_171)
  have d: "exactDistance \<lparr>px = 100, py = 0\<rparr> \<lparr>px = 0 / 1, py = 0 / 1\<rparr> = 100"
    by (simp add: exactDistance_def)
  have e: "addToClusters [\<lparr>sumX = 0, sumY = 0, count = 1\<rparr>] 100 0 100
      = [\<lparr>sumX = 0, sumY = 0, count = 1\<rparr>, \<lparr>sumX = 100, sumY = 0, count = 1\<rparr>]"
    by (simp add: distance_def
        fl_at_172 fl_at_3 fl_at_1 fl_at_173)
  show ?thesis using a b c d e by simp
qed

text \<open>
  C2, amended. \<open>clusterColor\<close> returns the result of the selection loop on the clusters
  built by adding the matching pixels, in scan order, to an empty cluster list; it returns
  \<open>None\<close> exactly when no visited pixel matches. On a non-empty cluster list the selection
  returns the centroid of a cluster \<open>best\<close> such that every cluster created before it is
  strictly smaller and every cluster created after it is not larger: the largest count,
  the first created among equals. Adding a pixel uses the centroid and the distance as
  the script computes them in doubles: it appends a new cluster of one pixel when no
  computed distance is below the threshold, and otherwise adds the pixel to the first
  cluster, in creation order, whose computed distance is below the threshold.
\<close>

theorem clusterColor_largest_first:
  fixes clusters cs before after :: "cluster list"
  shows
  "clusterColor imageData testFunc
     = largestCentroid (fold addPixel (matchedPixels imageData testFunc) []) \<and>
   (clusterColor imageData testFunc = None \<longleftrightarrow> matchedPixels imageData testFunc = []) \<and>
   (clusters \<noteq> [] \<longrightarrow>
      (\<exists>ys best zs. clusters = ys @ best # zs \<and>
         (\<forall>c\<in>set ys. count c < count best) \<and> (\<forall>c\<in>set zs. count c \<le> count best) \<and>
         largestCentroid clusters = Some (centroid best))) \<and>
   ((\<forall>c\<in>set cs. \<not> distance \<lparr>px = x, py = y\<rparr> (centroid c) < threshold) \<longrightarrow>
      addToClusters cs x y threshold = cs @ [\<lparr>sumX = x, sumY = y, count = 1\<rparr>]) \<and>
   ((\<forall>c\<in>set before. \<not> distance \<lparr>px = x', py = y'\<rparr> (centroid c) < threshold') \<and>
    distance \<lparr>px = x', py = y'\<rparr> (centroid c') < threshold' \<longrightarrow>
      addToClusters (before @ c' # after) x' y' threshold'
        = before @ c'\<lparr>sumX := fadd (sumX c') x', sumY := fadd (sumY c') y',
                       count := count c' + 1\<rparr> # after)"
proof -
  have a: "clusterColor imageData testFunc
      = largestCentroid (fold addPixel (matchedPixels imageData testFunc) [])"
    by (simp add: clusterColor_def scanClusters_matched)
  have b: "clusterColor imageData testFunc = None \<longleftrightarrow> matchedPixels imageData testFunc = []"
    by (simp add: a largestCentroid_None fold_addPixel_empty_iff)
  have c: "clusters \<noteq> [] \<longrightarrow>
      (\<exists>ys best zs. clusters = ys @ best # zs \<and>
         (\<forall>c\<in>set ys. count c < count best) \<and> (\<forall>c\<in>set zs. count c \<le> count best) \<and>
         largestCentroid clusters = Some (centroid best))"
  proof (rule impI)
    assume "clusters \<noteq> []"
    then show "\<exists>ys best zs. clusters = ys @ best # zs \<and>
         (\<forall>c\<in>set ys. count c < count best) \<and> (\<forall>c\<in>set zs. count c \<le> count best) \<and>
         largestCentroid clusters = Some (centroid best)"
      by (rule largestCentroid_split)
  qed
  have d: "(\<forall>c\<in>set cs. \<not> distance \<lparr>px = x, py = y\<rparr> (centroid c) < threshold) \<longrightarrow>
      addToClusters cs x y threshold = cs @ [\<lparr>sumX = x, sumY = y, count = 1\<rparr>]"
  proof (rule impI)
    assume "\<forall>c\<in>set cs. \<not> distance \<lparr>px = x, py = y\<rparr> (centroid c) < threshold"
    then show "addToClusters cs x y threshold = cs @ [\<lparr>sumX = x, sumY = y, count = 1\<rparr>]"
      by (rule addToClusters_far)
  qed
  have e: "(\<forall>c\<in>set before. \<not> distance \<lparr>px = x', py = y'\<rparr> (centroid c) < threshold') \<and>
    distance \<lparr>px = x', py = y'\<rparr> (centroid c') < threshold' \<longrightarrow>
      addToClusters (before @ c' # after) x' y' threshold'
        = before @ c'\<lparr>sumX := fadd (sumX c') x', sumY := fadd (sumY c') y',
                       count := count c' + 1\<rparr> # after"
  proof (rule impI, elim conjE)
    assume "\<forall>c\<in>set before. \<not> distance \<lparr>px = x', py = y'\<rparr> (centroid c) < threshold'"
      and "distance \<lparr>px = x', py = y'\<rparr> (centroid c') < threshold'"
    then show "addToClusters (before @ c' # after) x' y' threshold'
        = before @ c'\<lparr>sumX := fadd (sumX c') x', sumY := fadd (sumY c') y',
                       count := count c' + 1\<rparr> # after"
      by (rule addToClusters_near)
  qed
  show ?thesis
    by (rule conjI[OF a conjI[OF b conjI[OF c conjI[OF d e]]]])
qed

text \<open>
  The theorem at a frame of three pixels in a row, the outer two red, and at a list of
  three clusters whose second and third have the same count.
\<close>

theorem clusterColor_largest_first_witness:
  "matchedPixels \<lparr>width = 3, height = 1,
       data = [200, 0, 0, 255, 0, 0, 0, 255, 210, 10, 0, 255]\<rparr> isRed = [(0, 0), (2, 0)] \<and>
   clusterColor \<lparr>width = 3, height = 1,
       data = [200, 0, 0, 255, 0, 0, 0, 255, 210, 10, 0, 255]\<rparr> isRed
     = Some \<lparr>px = 1, py = 0\<rparr> \<and>
   (\<exists>ys best zs.
      [\<lparr>sumX = 10, sumY = 0, count = 2\<rparr>, \<lparr>sumX = 900, sumY = 0, count = 3\<rparr>,
       \<lparr>sumX = 1500, sumY = 0, count = 3\<rparr>] = ys @ best # zs \<and>
      (\<forall>c\<in>set ys. count c < count best) \<and> (\<forall>c\<in>set zs. count c \<le> count best) \<and>
      Some \<lparr>px = 300, py = 0\<rparr> = Some (centroid best)) \<and>
   addToClusters [\<lparr>sumX = 10, sumY = 0, count = 2\<rparr>, \<lparr>sumX = 900, sumY = 0, count = 3\<rparr>]
       700 0 100
     = [\<lparr>sumX = 10, sumY = 0, count = 2\<rparr>, \<lparr>sumX = 900, sumY = 0, count = 3\<rparr>,
        \<lparr>sumX = 700, sumY = 0, count = 1\<rparr>] \<and>
   addToClusters [\<lparr>sumX = 10, sumY = 0, count = 2\<rparr>, \<lparr>sumX = 900, sumY = 0, count = 3\<rparr>,
        \<lparr>sumX = 1500, sumY = 0, count = 3\<rparr>] 302 0 100
     = [\<lparr>sumX = 10, sumY = 0, count = 2\<rparr>, \<lparr>sumX = 1202, sumY = 0, count = 4\<rparr>,
        \<lparr>sumX = 1500, sumY = 0, count = 3\<rparr>]"
proof -
  let ?img = "\<lparr>width = 3, height = 1,
       data = [200, 0, 0, 255, 0, 0, 0, 255, 210, 10, 0, 255]\<rparr>"
  let ?c1 = "\<lparr>sumX = 10, sumY = 0, count = 2\<rparr>"
  let ?c2 = "\<lparr>sumX = 900, sumY = 0, count = 3\<rparr>"
  let ?c3 = "\<lparr>sumX = 1500, sumY = 0, count = 3\<rparr>"
  note t = clusterColor_largest_first[of ?img isRed "[?c1, ?c2, ?c3]" "[?c1, ?c2]" 700 0 100
      "[?c1]" 302 0 100 ?c2 "[?c3]"]
  have m: "matchedPixels ?img isRed = [(0, 0), (2, 0)]"
    by (simp add: matchedPixels_def scanOrder_def stride2_1 stride2_3 matches_def sample_def
        isRed_def)
  have far: "\<forall>c\<in>set [?c1, ?c2]. \<not> distance \<lparr>px = 700, py = 0\<rparr> (centroid c) < 100"
    by (simp add: distance_def centroid_def
        fl_at_174 fl_at_175 fl_at_176 fl_at_1 fl_at_177 fl_at_178 fl_at_179 fl_at_180
        fl_at_181 fl_at_182 fl_at_183 fl_at_184 fl_at_125 fl_at_185 fl_at_6 fl_at_186
        fl_at_172 fl_at_187 fl_at_188 fl_at_149)
  have near: "(\<forall>c\<in>set [?c1]. \<not> distance \<lparr>px = 302, py = 0\<rparr> (centroid c) < 100) \<and>
      distance \<lparr>px = 302, py = 0\<rparr> (centroid ?c2) < 100"
    by (simp add: distance_def centroid_def
        fl_at_174 fl_at_175 fl_at_176 fl_at_1 fl_at_177 fl_at_178 fl_at_179 fl_at_180
        fl_at_181 fl_at_182 fl_at_183 fl_at_184 fl_at_125 fl_at_185 fl_at_6 fl_at_186
        fl_at_172 fl_at_187 fl_at_188 fl_at_149)
  have l: "largestCentroid [?c1, ?c2, ?c3] = Some \<lparr>px = 300, py = 0\<rparr>"
    by (simp add: largestCentroid_def
        fl_at_174 fl_at_175 fl_at_176 fl_at_1 fl_at_177 fl_at_178 fl_at_179 fl_at_180
        fl_at_181 fl_at_182 fl_at_183 fl_at_184 fl_at_125 fl_at_185 fl_at_6 fl_at_186
        fl_at_172 fl_at_187 fl_at_188 fl_at_149)
  have f0: "fold addPixel [(0, 0), (2, 0)] [] = [\<lparr>sumX = 2, sumY = 0, count = 2\<rparr>]"
    by (simp add: addPixel_def distance_def
        fl_at_174 fl_at_175 fl_at_176 fl_at_1 fl_at_177 fl_at_178 fl_at_179 fl_at_180
        fl_at_181 fl_at_182 fl_at_183 fl_at_184 fl_at_125 fl_at_185 fl_at_6 fl_at_186
        fl_at_172 fl_at_187 fl_at_188 fl_at_149)
  have f: "largestCentroid (fold addPixel [(0, 0), (2, 0)] []) = Some \<lparr>px = 1, py = 0\<rparr>"
    unfolding f0 by (simp add: largestCentroid_def
        fl_at_174 fl_at_175 fl_at_176 fl_at_1 fl_at_177 fl_at_178 fl_at_179 fl_at_180
        fl_at_181 fl_at_182 fl_at_183 fl_at_184 fl_at_125 fl_at_185 fl_at_6 fl_at_186
        fl_at_172 fl_at_187 fl_at_188 fl_at_149)
  from t have "clusterColor ?img isRed
      = largestCentroid (fold addPixel (matchedPixels ?img isRed) [])"
    by (rule conjunct1)
  then have c: "clusterColor ?img isRed = Some \<lparr>px = 1, py = 0\<rparr>"
    by (simp only: m f)
  from t l have e: "\<exists>ys best zs. [?c1, ?c2, ?c3] = ys @ best # zs \<and>
      (\<forall>c\<in>set ys. count c < count best) \<and> (\<forall>c\<in>set zs. count c \<le> count best) \<and>
      Some \<lparr>px = 300, py = 0\<rparr> = Some (centroid best)"
    by simp
  from t far have a1: "addToClusters [?c1, ?c2] 700 0 100
      = [?c1, ?c2] @ [\<lparr>sumX = 700, sumY = 0, count = 1\<rparr>]"
    by blast
  from t near have a2: "addToClusters ([?c1] @ ?c2 # [?c3]) 302 0 100
      = [?c1] @ ?c2\<lparr>sumX := fadd (sumX ?c2) 302, sumY := fadd (sumY ?c2) 0,
                      count := count ?c2 + 1\<rparr> # [?c3]"
    by blast
  show ?thesis using m c e a1 a2
    by (simp add: fl_at_174 fl_at_175 fl_at_176 fl_at_1 fl_at_177 fl_at_178 fl_at_179 fl_at_180
        fl_at_181 fl_at_182 fl_at_183 fl_at_184 fl_at_125 fl_at_185 fl_at_6 fl_at_186
        fl_at_172 fl_at_187 fl_at_188 fl_at_149)
qed

section \<open>Geometric checks: results\<close>

text \<open>
  In exact arithmetic the formula of \<open>pointLineDistance\<close> is the distance from the point
  to the line: no point of the line is nearer, and one point of the line is at that
  distance.
\<close>

lemma exactPointLineDistance_least:
  assumes "px p1 \<noteq> px p2 \<or> py p1 \<noteq> py p2"
  shows "exactPointLineDistance p p1 p2
     \<le> exactDistance p \<lparr>px = px p1 + t * (px p2 - px p1), py = py p1 + t * (py p2 - py p1)\<rparr>"
proof -
  define vx where "vx = px p2 - px p1"
  define vy where "vy = py p2 - py p1"
  define ux where "ux = px p - (px p1 + t * vx)"
  define uy where "uy = py p - (py p1 + t * vy)"
  define c where "c = (py p2 - py p1) * px p - (px p2 - px p1) * py p + px p2 * py p1 - py p2 * px p1"
  have c_eq: "c = vy * ux - vx * uy"
    by (simp add: c_def vx_def vy_def ux_def uy_def algebra_simps)
  have lag: "c\<^sup>2 + (vx * ux + vy * uy)\<^sup>2 = (vx\<^sup>2 + vy\<^sup>2) * (ux\<^sup>2 + uy\<^sup>2)"
    unfolding c_eq by (simp add: power2_eq_square algebra_simps)
  have "c\<^sup>2 \<le> c\<^sup>2 + (vx * ux + vy * uy)\<^sup>2" by simp
  then have le: "c\<^sup>2 \<le> (vx\<^sup>2 + vy\<^sup>2) * (ux\<^sup>2 + uy\<^sup>2)" by (simp only: lag)
  have L: "exactDistance p1 p2 = sqrt (vx\<^sup>2 + vy\<^sup>2)"
    by (simp add: exactDistance_def vx_def vy_def power2_commute)
  have pos: "0 < vx\<^sup>2 + vy\<^sup>2"
    using assms by (auto simp add: vx_def vy_def sum_power2_gt_zero_iff)
  then have Lpos: "0 < sqrt (vx\<^sup>2 + vy\<^sup>2)" by simp
  have D: "exactDistance p \<lparr>px = px p1 + t * (px p2 - px p1), py = py p1 + t * (py p2 - py p1)\<rparr>
      = sqrt (ux\<^sup>2 + uy\<^sup>2)"
    by (simp add: exactDistance_def ux_def uy_def vx_def vy_def)
  have "\<bar>c\<bar> = sqrt (c\<^sup>2)" by simp
  also have "\<dots> \<le> sqrt ((vx\<^sup>2 + vy\<^sup>2) * (ux\<^sup>2 + uy\<^sup>2))"
    using le by (simp only: real_sqrt_le_iff)
  also have "\<dots> = sqrt (vx\<^sup>2 + vy\<^sup>2) * sqrt (ux\<^sup>2 + uy\<^sup>2)"
    by (rule real_sqrt_mult)
  finally have "\<bar>c\<bar> / sqrt (vx\<^sup>2 + vy\<^sup>2) \<le> sqrt (ux\<^sup>2 + uy\<^sup>2)"
    using Lpos by (simp add: field_simps)
  then show ?thesis
    by (simp add: exactPointLineDistance_def L D c_def)
qed

lemma exactPointLineDistance_attained:
  assumes "px p1 \<noteq> px p2 \<or> py p1 \<noteq> py p2"
  shows "\<exists>t. exactPointLineDistance p p1 p2
     = exactDistance p \<lparr>px = px p1 + t * (px p2 - px p1), py = py p1 + t * (py p2 - py p1)\<rparr>"
proof -
  define vx where "vx = px p2 - px p1"
  define vy where "vy = py p2 - py p1"
  define wx where "wx = px p - px p1"
  define wy where "wy = py p - py p1"
  define n where "n = vx\<^sup>2 + vy\<^sup>2"
  define t where "t = (vx * wx + vy * wy) / n"
  define ux where "ux = px p - (px p1 + t * vx)"
  define uy where "uy = py p - (py p1 + t * vy)"
  define c where "c = (py p2 - py p1) * px p - (px p2 - px p1) * py p + px p2 * py p1 - py p2 * px p1"
  have pos: "0 < n"
    using assms by (auto simp add: n_def vx_def vy_def sum_power2_gt_zero_iff)
  have c_eq: "c = vy * ux - vx * uy"
    by (simp add: c_def vx_def vy_def ux_def uy_def algebra_simps)
  have "vx * ux + vy * uy = (vx * wx + vy * wy) - t * n"
    by (simp add: ux_def uy_def wx_def wy_def n_def power2_eq_square algebra_simps)
  also have "\<dots> = 0" using pos by (simp add: t_def)
  finally have orth: "vx * ux + vy * uy = 0" .
  have "c\<^sup>2 + (vx * ux + vy * uy)\<^sup>2 = n * (ux\<^sup>2 + uy\<^sup>2)"
    unfolding c_eq n_def by (simp add: power2_eq_square algebra_simps)
  then have eq: "c\<^sup>2 = n * (ux\<^sup>2 + uy\<^sup>2)" by (simp add: orth)
  have L: "exactDistance p1 p2 = sqrt n"
    by (simp add: exactDistance_def n_def vx_def vy_def power2_commute)
  have D: "exactDistance p \<lparr>px = px p1 + t * (px p2 - px p1), py = py p1 + t * (py p2 - py p1)\<rparr>
      = sqrt (ux\<^sup>2 + uy\<^sup>2)"
    by (simp add: exactDistance_def ux_def uy_def vx_def vy_def)
  have "\<bar>c\<bar> = sqrt (c\<^sup>2)" by simp
  also have "\<dots> = sqrt n * sqrt (ux\<^sup>2 + uy\<^sup>2)"
    by (simp only: eq real_sqrt_mult)
  finally have "\<bar>c\<bar> / sqrt n = sqrt (ux\<^sup>2 + uy\<^sup>2)"
    using pos by simp
  then have "exactPointLineDistance p p1 p2
     = exactDistance p \<lparr>px = px p1 + t * (px p2 - px p1), py = py p1 + t * (py p2 - py p1)\<rparr>"
    by (simp add: exactPointLineDistance_def L D c_def)
  then show ?thesis ..
qed


text \<open>
  C1, as the claim states it, fails. The centroids \<open>(100, 196/3)\<close>, \<open>(150, 346/3)\<close> and
  \<open>(200, 196/3)\<close>, as doubles, are accepted by the three checks (with the tolerance
  input 0.7), although the perpendicular distance from pink to the line through red and
  green is 50: the script computes 49.99999999999999 for it.
\<close>

theorem geometryChecks_accepts_at_distance_50:
  "fdiv 196 3 = (4597424619607381 / 70368744177664) \<and>
   fdiv 346 3 = (8115861828490581 / 70368744177664) \<and>
   fst (geometryChecks (Num (fl 0.7))
          \<lparr>px = 100, py = (4597424619607381 / 70368744177664)\<rparr>
          \<lparr>px = 150, py = (8115861828490581 / 70368744177664)\<rparr>
          \<lparr>px = 200, py = (4597424619607381 / 70368744177664)\<rparr>) \<and>
   exactPointLineDistance
          \<lparr>px = 150, py = (8115861828490581 / 70368744177664)\<rparr>
          \<lparr>px = 100, py = (4597424619607381 / 70368744177664)\<rparr>
          \<lparr>px = 200, py = (4597424619607381 / 70368744177664)\<rparr> = 50 \<and>
   pointLineDistance
          \<lparr>px = 150, py = (8115861828490581 / 70368744177664)\<rparr>
          \<lparr>px = 100, py = (4597424619607381 / 70368744177664)\<rparr>
          \<lparr>px = 200, py = (4597424619607381 / 70368744177664)\<rparr> = (7036874417766399 / 140737488355328)"
proof -
  have a: "fdiv 196 3 = (4597424619607381 / 70368744177664)"
    "fdiv 346 3 = (8115861828490581 / 70368744177664)"
    by (simp_all add: fl_at_58 fl_at_59 fl_at_60 fl_at_61 fl_at_62 fl_at_63 fl_at_64 fl_at_65 fl_at_66
        fl_at_67 fl_at_68 fl_at_69 fl_at_70 fl_at_8 fl_at_71 fl_at_72 fl_at_73 fl_at_80
        fl_at_81 fl_at_82 fl_at_83 fl_at_84 fl_at_85 fl_at_86 fl_at_87 fl_at_88 fl_at_89
        fl_at_90 fl_at_91)
  have b: "fst (geometryChecks (Num (fl 0.7))
          \<lparr>px = 100, py = (4597424619607381 / 70368744177664)\<rparr>
          \<lparr>px = 150, py = (8115861828490581 / 70368744177664)\<rparr>
          \<lparr>px = 200, py = (4597424619607381 / 70368744177664)\<rparr>)"
    by (simp add: geometryChecks_def isCollinear_def checkOrder_def checkEqualIntervals_def
        pointLineDistance_def distance_def COLLINEARITY_THRESHOLD_def
        fl_at_58 fl_at_59 fl_at_60 fl_at_61 fl_at_62 fl_at_63 fl_at_64 fl_at_65 fl_at_66
        fl_at_67 fl_at_68 fl_at_69 fl_at_70 fl_at_8 fl_at_71 fl_at_72 fl_at_73 fl_at_80
        fl_at_81 fl_at_82 fl_at_83 fl_at_84 fl_at_85 fl_at_86 fl_at_87 fl_at_88 fl_at_89
        fl_at_90 fl_at_91)
  have "exactDistance \<lparr>px = 100, py = (4597424619607381 / 70368744177664)\<rparr>
      \<lparr>px = 200, py = (4597424619607381 / 70368744177664)\<rparr> = sqrt ((100::real)\<^sup>2)"
    by (simp add: exactDistance_def)
  then have c: "exactDistance \<lparr>px = 100, py = (4597424619607381 / 70368744177664)\<rparr>
      \<lparr>px = 200, py = (4597424619607381 / 70368744177664)\<rparr> = 100"
    by simp
  have d: "exactPointLineDistance
          \<lparr>px = 150, py = (8115861828490581 / 70368744177664)\<rparr>
          \<lparr>px = 100, py = (4597424619607381 / 70368744177664)\<rparr>
          \<lparr>px = 200, py = (4597424619607381 / 70368744177664)\<rparr> = 50"
    by (simp add: exactPointLineDistance_def c)
  have e: "pointLineDistance
          \<lparr>px = 150, py = (8115861828490581 / 70368744177664)\<rparr>
          \<lparr>px = 100, py = (4597424619607381 / 70368744177664)\<rparr>
          \<lparr>px = 200, py = (4597424619607381 / 70368744177664)\<rparr> = (7036874417766399 / 140737488355328)"
    by (simp add: pointLineDistance_def distance_def
        fl_at_58 fl_at_59 fl_at_60 fl_at_61 fl_at_62 fl_at_63 fl_at_64 fl_at_65 fl_at_66
        fl_at_67 fl_at_68 fl_at_69 fl_at_70 fl_at_8 fl_at_71 fl_at_72 fl_at_73 fl_at_80
        fl_at_81 fl_at_82 fl_at_83 fl_at_84 fl_at_85 fl_at_86 fl_at_87 fl_at_88 fl_at_89
        fl_at_90 fl_at_91)
  show ?thesis using a b d e by simp
qed

text \<open>
  C1, amended. When the three checks accept three points, the value that
  \<open>pointLineDistance\<close> computes in doubles for pink and the line through red and green is
  below 50, and the computed \<open>|dRP + dPG - dRG|\<close> is below 50. The points \<open>(0,0)\<close>,
  \<open>(50,0)\<close>, \<open>(100,0)\<close> pass the collinearity and the order check; with pink at \<open>(50,60)\<close>
  the collinearity check fails. For the line through \<open>(0,0)\<close> and \<open>(30,40)\<close> the computed
  distance of \<open>(25,0)\<close> is 20 and that of \<open>(100,0)\<close> is 80.
\<close>

theorem geometryChecks_accepts_only:
  "(fst (geometryChecks parsed r p g) \<longrightarrow>
      pointLineDistance p r g < 50 \<and>
      \<bar>fsub (fadd (distance r p) (distance p g)) (distance r g)\<bar> < 50) \<and>
   isCollinear \<lparr>px = 0, py = 0\<rparr> \<lparr>px = 50, py = 0\<rparr> \<lparr>px = 100, py = 0\<rparr> 50 \<and>
   checkOrder \<lparr>px = 0, py = 0\<rparr> \<lparr>px = 50, py = 0\<rparr> \<lparr>px = 100, py = 0\<rparr> 50 \<and>
   \<not> isCollinear \<lparr>px = 0, py = 0\<rparr> \<lparr>px = 50, py = 60\<rparr> \<lparr>px = 100, py = 0\<rparr> 50 \<and>
   pointLineDistance \<lparr>px = 25, py = 0\<rparr> \<lparr>px = 0, py = 0\<rparr> \<lparr>px = 30, py = 40\<rparr> = 20 \<and>
   pointLineDistance \<lparr>px = 100, py = 0\<rparr> \<lparr>px = 0, py = 0\<rparr> \<lparr>px = 30, py = 40\<rparr> = 80"
proof -
  have "fst (geometryChecks parsed r p g) \<longrightarrow>
      pointLineDistance p r g < 50 \<and>
      \<bar>fsub (fadd (distance r p) (distance p g)) (distance r g)\<bar> < 50"
    by (auto simp add: geometryChecks_def isCollinear_def checkOrder_def
        COLLINEARITY_THRESHOLD_def Let_def split: if_splits)
  moreover have
    "isCollinear \<lparr>px = 0, py = 0\<rparr> \<lparr>px = 50, py = 0\<rparr> \<lparr>px = 100, py = 0\<rparr> 50"
    by (simp add: isCollinear_def pointLineDistance_def distance_def
        fl_at_1 fl_at_2 fl_at_3 fl_at_4 fl_at_5 fl_at_6 fl_at_7 fl_at_8 fl_at_9 fl_at_10
        fl_at_11 fl_at_12 fl_at_13 fl_at_14)
  moreover have
    "checkOrder \<lparr>px = 0, py = 0\<rparr> \<lparr>px = 50, py = 0\<rparr> \<lparr>px = 100, py = 0\<rparr> 50"
    by (simp add: checkOrder_def distance_def
        fl_at_1 fl_at_2 fl_at_3 fl_at_4 fl_at_5 fl_at_6 fl_at_7 fl_at_8 fl_at_9 fl_at_10
        fl_at_11 fl_at_12 fl_at_13 fl_at_14)
  moreover have
    "\<not> isCollinear \<lparr>px = 0, py = 0\<rparr> \<lparr>px = 50, py = 60\<rparr> \<lparr>px = 100, py = 0\<rparr> 50"
    by (simp add: isCollinear_def pointLineDistance_def distance_def
        fl_at_1 fl_at_2 fl_at_3 fl_at_27 fl_at_4 fl_at_5 fl_at_28 fl_at_29 fl_at_30 fl_at_7
        fl_at_8 fl_at_31)
  moreover have
    "pointLineDistance \<lparr>px = 25, py = 0\<rparr> \<lparr>px = 0, py = 0\<rparr> \<lparr>px = 30, py = 40\<rparr> = 20"
    by (simp add: pointLineDistance_def distance_def
        fl_at_32 fl_at_33 fl_at_34 fl_at_35 fl_at_36 fl_at_37 fl_at_38 fl_at_39 fl_at_40
        fl_at_52 fl_at_53 fl_at_54 fl_at_55 fl_at_56 fl_at_57)
  moreover have
    "pointLineDistance \<lparr>px = 100, py = 0\<rparr> \<lparr>px = 0, py = 0\<rparr> \<lparr>px = 30, py = 40\<rparr> = 80"
    by (simp add: pointLineDistance_def distance_def
        fl_at_32 fl_at_33 fl_at_34 fl_at_35 fl_at_36 fl_at_37 fl_at_38 fl_at_39 fl_at_40
        fl_at_52 fl_at_53 fl_at_54 fl_at_55 fl_at_56 fl_at_57)
  ultimately show ?thesis by simp
qed

text \<open>The theorem at three accepted points, with the tolerance input at 0.7.\<close>

theorem geometryChecks_accepts_only_witness:
  "fst (geometryChecks (Num 0.7) \<lparr>px = 0, py = 0\<rparr> \<lparr>px = 50, py = 0\<rparr> \<lparr>px = 100, py = 0\<rparr>) \<and>
   pointLineDistance \<lparr>px = 50, py = 0\<rparr> \<lparr>px = 0, py = 0\<rparr> \<lparr>px = 100, py = 0\<rparr> < 50 \<and>
   \<bar>fsub (fadd (distance \<lparr>px = 0, py = 0\<rparr> \<lparr>px = 50, py = 0\<rparr>)
                (distance \<lparr>px = 50, py = 0\<rparr> \<lparr>px = 100, py = 0\<rparr>))
          (distance \<lparr>px = 0, py = 0\<rparr> \<lparr>px = 100, py = 0\<rparr>)\<bar> < 50"
proof -
  have acc: "fst (geometryChecks (Num 0.7) \<lparr>px = 0, py = 0\<rparr> \<lparr>px = 50, py = 0\<rparr>
      \<lparr>px = 100, py = 0\<rparr>)"
    by (simp add: geometryChecks_def isCollinear_def checkOrder_def
        COLLINEARITY_THRESHOLD_def checkEqualIntervals_def pointLineDistance_def
        distance_def
        fl_at_1 fl_at_2 fl_at_3 fl_at_4 fl_at_5 fl_at_6 fl_at_7 fl_at_8 fl_at_9 fl_at_10
        fl_at_11 fl_at_12 fl_at_13 fl_at_14 fl_at_15 fl_at_16 fl_at_17 fl_at_18 fl_at_19
        fl_at_20)
  with geometryChecks_accepts_only[of "Num 0.7" "\<lparr>px = 0, py = 0\<rparr>" "\<lparr>px = 50, py = 0\<rparr>"
      "\<lparr>px = 100, py = 0\<rparr>"]
  show ?thesis by blast
qed

text \<open>
  C4, as the claim states it, fails: with the tolerance 0.1 and red, pink, green at
  \<open>(0,0)\<close>, \<open>(50,0)\<close>, \<open>(106,0)\<close>, so that \<open>dRP = 50\<close>, \<open>dPG = 56\<close> and \<open>dRG = 106\<close>
  lies in its band, the check rejects.
\<close>

theorem checkEqualIntervals_56_rejected:
  "distance \<lparr>px = 0, py = 0\<rparr> \<lparr>px = 50, py = 0\<rparr> = 50 \<and>
   distance \<lparr>px = 50, py = 0\<rparr> \<lparr>px = 106, py = 0\<rparr> = 56 \<and>
   distance \<lparr>px = 0, py = 0\<rparr> \<lparr>px = 106, py = 0\<rparr> = 106 \<and>
   \<not> checkEqualIntervals (Num 0.1) \<lparr>px = 0, py = 0\<rparr> \<lparr>px = 50, py = 0\<rparr> \<lparr>px = 106, py = 0\<rparr>"
  by (simp add: checkEqualIntervals_def distance_def
      fl_at_10 fl_at_1 fl_at_11 fl_at_92 fl_at_93 fl_at_94 fl_at_95 fl_at_96 fl_at_97
        fl_at_98 fl_at_99 fl_at_100 fl_at_101)

text \<open>
  C4, amended. With a numeric tolerance \<open>tol\<close> the check accepts exactly when \<open>dPG\<close> lies
  strictly between the products \<open>dRP (1 - tol)\<close> and \<open>dRP (1 + tol)\<close> and \<open>dRG\<close> strictly
  between twice these products, each difference, sum and product rounded to a double.
  With the tolerance input 0.1 and \<open>dRP = 50\<close> the lower bound is 45 and the upper bound
  is the double above 55, which prints as 55.00000000000001: the check rejects
  \<open>dPG = 56\<close> and \<open>dPG = 70\<close>, whatever \<open>dRG\<close> is, it accepts \<open>dPG = 55\<close> with \<open>dRG = 105\<close>
  and \<open>dPG = 54\<close> with \<open>dRG = 104\<close>, and it rejects \<open>dPG = 45\<close> with \<open>dRG = 95\<close>.
\<close>

theorem checkEqualIntervals_iff:
  "(checkEqualIntervals (Num tol) r p g \<longleftrightarrow>
      fmul (distance r p) (fsub 1 tol) < distance p g \<and>
      distance p g < fmul (distance r p) (fadd 1 tol) \<and>
      fmul (fmul (distance r p) (fsub 1 tol)) 2 < distance r g \<and>
      distance r g < fmul (fmul (distance r p) (fadd 1 tol)) 2) \<and>
   fmul 50 (fsub 1 (fl 0.1)) = 45 \<and>
   fmul 50 (fadd 1 (fl 0.1)) = (7740561859543041 / 140737488355328) \<and>
   (distance r' p' = 50 \<and> distance p' g' = 56 \<longrightarrow>
      \<not> checkEqualIntervals (Num (fl 0.1)) r' p' g') \<and>
   (distance r' p' = 50 \<and> distance p' g' = 70 \<longrightarrow>
      \<not> checkEqualIntervals (Num (fl 0.1)) r' p' g') \<and>
   checkEqualIntervals (Num (fl 0.1)) \<lparr>px = 0, py = 0\<rparr> \<lparr>px = 50, py = 0\<rparr> \<lparr>px = 105, py = 0\<rparr> \<and>
   checkEqualIntervals (Num (fl 0.1)) \<lparr>px = 0, py = 0\<rparr> \<lparr>px = 50, py = 0\<rparr> \<lparr>px = 104, py = 0\<rparr> \<and>
   \<not> checkEqualIntervals (Num (fl 0.1)) \<lparr>px = 0, py = 0\<rparr> \<lparr>px = 50, py = 0\<rparr> \<lparr>px = 95, py = 0\<rparr>"
proof -
  have a: "checkEqualIntervals (Num tol) r p g \<longleftrightarrow>
      fmul (distance r p) (fsub 1 tol) < distance p g \<and>
      distance p g < fmul (distance r p) (fadd 1 tol) \<and>
      fmul (fmul (distance r p) (fsub 1 tol)) 2 < distance r g \<and>
      distance r g < fmul (fmul (distance r p) (fadd 1 tol)) 2"
    by (simp add: checkEqualIntervals_def Let_def)
  have b: "fmul 50 (fsub 1 (fl 0.1)) = 45"
    "fmul 50 (fadd 1 (fl 0.1)) = (7740561859543041 / 140737488355328)"
    by (simp_all add: fl_at_102 fl_at_103 fl_at_104 fl_at_98 fl_at_99)
  have c: "distance r' p' = 50 \<and> distance p' g' = 56 \<longrightarrow>
      \<not> checkEqualIntervals (Num (fl 0.1)) r' p' g'"
    by (simp add: checkEqualIntervals_def Let_def
        fl_at_102 fl_at_103 fl_at_104 fl_at_98 fl_at_99)
  have d: "distance r' p' = 50 \<and> distance p' g' = 70 \<longrightarrow>
      \<not> checkEqualIntervals (Num (fl 0.1)) r' p' g'"
    by (simp add: checkEqualIntervals_def Let_def
        fl_at_102 fl_at_103 fl_at_104 fl_at_98 fl_at_99)
  have e: "checkEqualIntervals (Num (fl 0.1)) \<lparr>px = 0, py = 0\<rparr> \<lparr>px = 50, py = 0\<rparr>
      \<lparr>px = 105, py = 0\<rparr>"
    "checkEqualIntervals (Num (fl 0.1)) \<lparr>px = 0, py = 0\<rparr> \<lparr>px = 50, py = 0\<rparr>
      \<lparr>px = 104, py = 0\<rparr>"
    "\<not> checkEqualIntervals (Num (fl 0.1)) \<lparr>px = 0, py = 0\<rparr> \<lparr>px = 50, py = 0\<rparr>
      \<lparr>px = 95, py = 0\<rparr>"
    by (simp_all add: checkEqualIntervals_def distance_def
        fl_at_102 fl_at_10 fl_at_1 fl_at_11 fl_at_105 fl_at_106 fl_at_107 fl_at_108
        fl_at_103 fl_at_104 fl_at_98 fl_at_99 fl_at_100 fl_at_101 fl_at_109 fl_at_110
        fl_at_111 fl_at_112 fl_at_113 fl_at_114 fl_at_115 fl_at_116)
  show ?thesis
    by (rule conjI[OF a conjI[OF b(1) conjI[OF b(2) conjI[OF c conjI[OF d
          conjI[OF e(1) conjI[OF e(2) e(3)]]]]]]])
qed

text \<open>
  The theorem at points with \<open>dRP = 50\<close> and \<open>dPG = 56\<close>, and at points with \<open>dRP = 50\<close>
  and \<open>dPG = 70\<close>.
\<close>

theorem checkEqualIntervals_iff_witness:
  "distance \<lparr>px = 0, py = 0\<rparr> \<lparr>px = 50, py = 0\<rparr> = 50 \<and>
   distance \<lparr>px = 50, py = 0\<rparr> \<lparr>px = 106, py = 0\<rparr> = 56 \<and>
   \<not> checkEqualIntervals (Num (fl 0.1)) \<lparr>px = 0, py = 0\<rparr> \<lparr>px = 50, py = 0\<rparr>
       \<lparr>px = 106, py = 0\<rparr> \<and>
   distance \<lparr>px = 50, py = 0\<rparr> \<lparr>px = 120, py = 0\<rparr> = 70 \<and>
   \<not> checkEqualIntervals (Num (fl 0.1)) \<lparr>px = 0, py = 0\<rparr> \<lparr>px = 50, py = 0\<rparr>
       \<lparr>px = 120, py = 0\<rparr>"
proof -
  have d: "distance \<lparr>px = 0, py = 0\<rparr> \<lparr>px = 50, py = 0\<rparr> = 50"
    "distance \<lparr>px = 50, py = 0\<rparr> \<lparr>px = 106, py = 0\<rparr> = 56"
    "distance \<lparr>px = 50, py = 0\<rparr> \<lparr>px = 120, py = 0\<rparr> = 70"
    by (simp_all add: distance_def
        fl_at_102 fl_at_10 fl_at_1 fl_at_11 fl_at_92 fl_at_93 fl_at_94 fl_at_95 fl_at_103
        fl_at_104 fl_at_98 fl_at_99 fl_at_100 fl_at_101 fl_at_117 fl_at_118 fl_at_119
        fl_at_120)
  from d checkEqualIntervals_iff[of tol r p g "\<lparr>px = 0, py = 0\<rparr>" "\<lparr>px = 50, py = 0\<rparr>"
      "\<lparr>px = 106, py = 0\<rparr>" for tol r p g]
  have a: "\<not> checkEqualIntervals (Num (fl 0.1)) \<lparr>px = 0, py = 0\<rparr> \<lparr>px = 50, py = 0\<rparr>
      \<lparr>px = 106, py = 0\<rparr>"
    by blast
  from d checkEqualIntervals_iff[of tol r p g "\<lparr>px = 0, py = 0\<rparr>" "\<lparr>px = 50, py = 0\<rparr>"
      "\<lparr>px = 120, py = 0\<rparr>" for tol r p g]
  have b: "\<not> checkEqualIntervals (Num (fl 0.1)) \<lparr>px = 0, py = 0\<rparr> \<lparr>px = 50, py = 0\<rparr>
      \<lparr>px = 120, py = 0\<rparr>"
    by blast
  show ?thesis using d a b by simp
qed

text \<open>
  An example off the axes: with the tolerance 0.5 and the points \<open>(0,0)\<close>, \<open>(10,12)\<close>,
  \<open>(25,30)\<close>, for which \<open>dPG\<close> is one and a half times \<open>dRP\<close> in exact arithmetic, the
  computed \<open>dPG\<close> is below the computed upper bound and the check accepts.
\<close>

lemma checkEqualIntervals_off_axis_example:
  "distance \<lparr>px = 0, py = 0\<rparr> \<lparr>px = 10, py = 12\<rparr> = (4396779691260469 / 281474976710656)"
  "distance \<lparr>px = 10, py = 12\<rparr> \<lparr>px = 25, py = 30\<rparr> = (6595169536890703 / 281474976710656)"
  "checkEqualIntervals (Num 0.5) \<lparr>px = 0, py = 0\<rparr> \<lparr>px = 10, py = 12\<rparr> \<lparr>px = 25, py = 30\<rparr>"
  by (simp_all add: checkEqualIntervals_def distance_def
      fl_at_192 fl_at_193 fl_at_203 fl_at_204 fl_at_205 fl_at_209 fl_at_210 fl_at_39
        fl_at_214 fl_at_215 fl_at_216 fl_at_217 fl_at_218 fl_at_219 fl_at_220)

text \<open>
  C8. When the tolerance input does not parse, \<open>parseFloat\<close> gives \<open>NaN\<close>, the operator
  \<^verbatim>\<open>??\<close> keeps it, and the check rejects every three points; with the default 0.8
  it would accept \<open>(0,0)\<close>, \<open>(50,0)\<close>, \<open>(100,0)\<close>.
\<close>

theorem checkEqualIntervals_NaN_no_fallback:
  "nullish NaN (Num intervallTolerance) = NaN \<and>
   \<not> checkEqualIntervals NaN \<lparr>px = 0, py = 0\<rparr> \<lparr>px = 50, py = 0\<rparr> \<lparr>px = 100, py = 0\<rparr> \<and>
   checkEqualIntervals (Num 0.8) \<lparr>px = 0, py = 0\<rparr> \<lparr>px = 50, py = 0\<rparr> \<lparr>px = 100, py = 0\<rparr>"
  by (simp add: checkEqualIntervals_def distance_def
      fl_at_10 fl_at_1 fl_at_11 fl_at_12 fl_at_7 fl_at_8 fl_at_21 fl_at_22 fl_at_23
        fl_at_24 fl_at_25 fl_at_26)

section \<open>Rotation: results\<close>

lemma atan2_range: "- pi < atan2 b a \<and> atan2 b a \<le> pi"
  using arctan_bounded[of "b / a"] pi_gt_zero
  unfolding atan2_def
  by (auto simp: divide_less_0_iff zero_less_divide_iff divide_le_0_iff)

lemma degrees_bound:
  fixes d :: real
  assumes "- (2 * pi) < d" "d < 2 * pi"
  shows "- 360 < d * (180 / pi) \<and> d * (180 / pi) < 360"
proof -
  have p: "0 < pi" by (rule pi_gt_zero)
  have "d * (180 / pi) < 360 \<longleftrightarrow> d * 180 < 360 * pi"
    using p by (simp add: field_simps)
  moreover have "- 360 < d * (180 / pi) \<longleftrightarrow> - 360 * pi < d * 180"
    using p by (simp add: field_simps)
  ultimately show ?thesis using assms by simp
qed

text \<open>
  C6. The rotation returned by \<open>computeRotation\<close> is above -180 and at most 180. When
  the target angle exceeds the current angle by exactly 180 degrees the result is 180,
  and when it is exactly 180 degrees below, the result is 180 as well.
\<close>

theorem computeRotation_range:
  "- 180 < computeRotation middle redPoint mouse \<and>
   computeRotation middle redPoint mouse \<le> 180 \<and>
   computeRotation \<lparr>px = 0, py = 0\<rparr> \<lparr>px = 10, py = 0\<rparr> \<lparr>px = - 10, py = 0\<rparr> = 180 \<and>
   computeRotation \<lparr>px = 0, py = 0\<rparr> \<lparr>px = - 10, py = 0\<rparr> \<lparr>px = 10, py = 0\<rparr> = 180"
proof -
  define a where "a = atan2 (py redPoint - py middle) (px redPoint - px middle)"
  define b where "b = atan2 (py mouse - py middle) (px mouse - px middle)"
  have ra: "- pi < a" "a \<le> pi"
    using atan2_range[of "py redPoint - py middle" "px redPoint - px middle"]
    by (simp_all add: a_def)
  have rb: "- pi < b" "b \<le> pi"
    using atan2_range[of "py mouse - py middle" "px mouse - px middle"]
    by (simp_all add: b_def)
  have "- (2 * pi) < b - a" "b - a < 2 * pi" using ra rb by simp_all
  then have d: "- 360 < (b - a) * (180 / pi)" "(b - a) * (180 / pi) < 360"
    using degrees_bound[of "b - a"] by simp_all
  have "computeRotation middle redPoint mouse =
      (let rotation = (b - a) * (180 / pi);
           rotation = (if rotation > 180 then rotation - 360 else rotation);
           rotation = (if rotation \<le> - 180 then rotation + 360 else rotation)
       in rotation)"
    by (simp add: computeRotation_def a_def b_def)
  then have g: "- 180 < computeRotation middle redPoint mouse \<and>
      computeRotation middle redPoint mouse \<le> 180"
    using d by (simp add: Let_def)
  have e1: "computeRotation \<lparr>px = 0, py = 0\<rparr> \<lparr>px = 10, py = 0\<rparr> \<lparr>px = - 10, py = 0\<rparr> = 180"
    by (simp add: computeRotation_def atan2_def)
  have e2: "computeRotation \<lparr>px = 0, py = 0\<rparr> \<lparr>px = - 10, py = 0\<rparr> \<lparr>px = 10, py = 0\<rparr> = 180"
    by (simp add: computeRotation_def atan2_def)
  show ?thesis using g e1 e2 by simp
qed

text \<open>The sentence determines the classification, and the decimal text the integer.\<close>

lemma digitValue_digit: "n < 10 \<Longrightarrow> digitValue (''0123456789'' ! n) = n"
  by (auto simp add: numeral_eq_Suc less_Suc_eq digitValue_def)

lemma digit_not_minus: "n < 10 \<Longrightarrow> ''0123456789'' ! n \<noteq> CHR ''-''"
  by (auto simp add: numeral_eq_Suc less_Suc_eq)

lemma natOfText_snoc: "natOfText (s @ [c]) = 10 * natOfText s + digitValue c"
  by (simp add: natOfText_def)

lemma natOfText_natText: "natOfText (natText n) = n"
proof (induction n rule: natText.induct)
  case (1 n)
  show ?case
  proof (cases "n < 10")
    case True
    then show ?thesis
      by (simp add: natText.simps[of n] natOfText_def digitValue_digit)
  next
    case False
    then have "natOfText (natText (n div 10)) = n div 10" by (rule "1.IH")
    with False show ?thesis
      by (simp add: natText.simps[of n] natOfText_snoc digitValue_digit)
  qed
qed

lemma natText_first: "\<exists>c cs. natText n = c # cs \<and> c \<noteq> CHR ''-''"
proof (induction n rule: natText.induct)
  case (1 n)
  show ?case
  proof (cases "n < 10")
    case True
    then show ?thesis by (simp add: natText.simps[of n] digit_not_minus)
  next
    case False
    then obtain c cs where "natText (n div 10) = c # cs" "c \<noteq> CHR ''-''"
      using "1.IH" by blast
    with False show ?thesis by (simp add: natText.simps[of n])
  qed
qed

lemma intOfText_intText: "intOfText (intText i) = i"
proof (cases "i < 0")
  case True
  then show ?thesis by (simp add: intText_def intOfText_def natOfText_natText)
next
  case False
  obtain c cs where t: "natText (nat i) = c # cs" "c \<noteq> CHR ''-''"
    using natText_first[of "nat i"] by blast
  have "int (natOfText (natText (nat i))) = i" using False by (simp add: natOfText_natText)
  with False t show ?thesis by (simp add: intText_def intOfText_def)
qed

lemma intText_inj: "intText i = intText j \<Longrightarrow> i = j"
  by (metis intOfText_intText)

lemma headingText_mode_direction:
  "headingText h = headingText h' \<Longrightarrow> mode h = mode h' \<and> direction h = direction h'"
  by (cases "mode h"; cases "mode h'"; cases "direction h"; cases "direction h'") simp_all

lemma headingText_inj:
  fixes h h' :: heading
  assumes "headingText h = headingText h'"
  shows "h = h'"
proof -
  from assms have md: "mode h = mode h'" "direction h = direction h'"
    using headingText_mode_direction by blast+
  from assms md have "intText (magnitudePercent h) = intText (magnitudePercent h')"
    by (cases "mode h'") simp_all
  then have "magnitudePercent h = magnitudePercent h'" by (rule intText_inj)
  with md show ?thesis by simp
qed

lemma steeringText_examples:
  "steeringText 90 = ''The boat have to turn right and then rotate right with factor 0%''"
  "steeringText (- 45) = ''The boat have to rotate left with factor 25%''"
  by (simp_all add: steeringText_def Math_round_def intText_def natText.simps
      fl_at_221 fl_at_222 fl_at_223 fl_at_224 fl_at_225)

text \<open>
  C7, as the claim states it, fails: for the rotation that is the double nearest to 11.7
  the exact value of \<open>|rotation| / 180 \<times> 100\<close> rounds to 6, and the script, whose quotient
  and product are rounded to doubles, computes 6.5 and writes 7 percent.
\<close>

theorem steeringText_seven_percent:
  "fl 11.7 = (3293257227514675 / 281474976710656) \<and>
   round (\<bar>(3293257227514675 / 281474976710656)\<bar> / 180 * 100 :: real) = 6 \<and>
   steeringText (3293257227514675 / 281474976710656)
     = ''The boat have to rotate right with factor 7%''"
proof -
  have a: "fl 11.7 = (3293257227514675 / 281474976710656)"
    by (simp add: fl_at_189 fl_at_190 fl_at_191)
  have b: "round (\<bar>(3293257227514675 / 281474976710656)\<bar> / 180 * 100 :: real) = 6"
    by (simp add: round_def)
  have c: "steeringText (3293257227514675 / 281474976710656)
      = ''The boat have to rotate right with factor 7%''"
    by (simp add: steeringText_def Math_round_def intText_def natText.simps
        fl_at_189 fl_at_190 fl_at_191)
  show ?thesis using a b c by simp
qed

text \<open>
  C7, amended. The text written for a rotation is the sentence of the classification:
  mode Simple when \<open>|rotation| < 90\<close>, with the percentage \<open>Math.round\<close> of the product by
  100 of the quotient of \<open>|rotation|\<close> by 180, the quotient and the product rounded to
  doubles; mode Combined otherwise, with the same percentage of \<open>|rotation| - 90\<close>, the
  difference rounded as well; and the direction Right when the rotation is positive, Left
  otherwise.
\<close>

theorem steeringText_classification:
  "steeringText rotation = headingText (steering_spec rotation)"
  by (simp add: steeringText_def steering_spec_def Math_round_def round_def)

section \<open>Processing a frame: results\<close>

text \<open>
  C9. When one of the three dots is absent, the frame shows that not all dots were
  detected, empties the angle field, leaves the store as it was and evaluates none of
  the three geometric checks.
\<close>

theorem processDots_missing_marker:
  "red d = None \<or> pink d = None \<or> green d = None \<Longrightarrow>
   processDots parsed mouse s disp d =
     \<lparr>storeAfter = s,
      shown = \<lparr>coordsDisplay = ''Not all dots detected.'', angleDisplay = AngleEmpty\<rparr>,
      evaluated = []\<rparr>"
  by (auto simp add: processDots_def split: option.splits)

text \<open>The theorem at a marker set whose pink dot is absent.\<close>

theorem processDots_missing_marker_witness:
  "pink \<lparr>red = Some 0, pink = None, green = Some 1\<rparr> = None \<and>
   processDots (Num 0.7) \<lparr>mouseX = Some 0, mouseY = Some 0\<rparr> (\<lambda>_. \<lparr>px = 0, py = 0\<rparr>)
       \<lparr>coordsDisplay = [], angleDisplay = AngleEmpty\<rparr>
       \<lparr>red = Some 0, pink = None, green = Some 1\<rparr> =
     \<lparr>storeAfter = (\<lambda>_. \<lparr>px = 0, py = 0\<rparr>),
      shown = \<lparr>coordsDisplay = ''Not all dots detected.'', angleDisplay = AngleEmpty\<rparr>,
      evaluated = []\<rparr>"
  using processDots_missing_marker[of "\<lparr>red = Some 0, pink = None, green = Some 1\<rparr>"
      "Num 0.7" "\<lparr>mouseX = Some 0, mouseY = Some 0\<rparr>" "\<lambda>_. \<lparr>px = 0, py = 0\<rparr>"
      "\<lparr>coordsDisplay = [], angleDisplay = AngleEmpty\<rparr>"]
  by simp

text \<open>
  C3, as the claim states it, fails: after a frame with red, pink, green at \<open>(0,0)\<close>,
  \<open>(50,0)\<close>, \<open>(100,0)\<close>, the pink point of the marker set is \<open>(25,0)\<close>.
\<close>

theorem processDots_overwrites_pink:
  "storeAfter
     (processDots (Num 0.7) \<lparr>mouseX = Some 0, mouseY = Some 0\<rparr>
        ((\<lambda>_. \<lparr>px = 0, py = 0\<rparr>)(1 := \<lparr>px = 50, py = 0\<rparr>, 2 := \<lparr>px = 100, py = 0\<rparr>))
        \<lparr>coordsDisplay = [], angleDisplay = AngleEmpty\<rparr>
        \<lparr>red = Some 0, pink = Some 1, green = Some 2\<rparr>) 1
     = \<lparr>px = 25, py = 0\<rparr> \<and>
   ((\<lambda>_. \<lparr>px = 0, py = 0\<rparr>)(1 := \<lparr>px = 50, py = 0\<rparr>, 2 := \<lparr>px = 100, py = 0\<rparr>)) (1::nat)
     = \<lparr>px = 50, py = 0\<rparr>"
  by (simp add: processDots_def geometryChecks_def isCollinear_def checkOrder_def
      COLLINEARITY_THRESHOLD_def checkEqualIntervals_def pointLineDistance_def distance_def
      middleFrontStep_def Let_def
      fl_at_1 fl_at_2 fl_at_3 fl_at_4 fl_at_5 fl_at_6 fl_at_7 fl_at_8 fl_at_9 fl_at_10
        fl_at_11 fl_at_12 fl_at_13 fl_at_14 fl_at_15 fl_at_16 fl_at_17 fl_at_18 fl_at_19
        fl_at_20)

text \<open>
  C3, amended. The pivot is the pink object itself: after the step it holds the midpoint
  of pink and red, \<open>pink + (red - pink) / 2\<close>, so the pink point of the marker set is
  overwritten by the pivot; every other point of the store is unchanged.
\<close>

theorem middleFrontStep_midpoint_in_place:
  "snd (middleFrontStep s r p) = p \<and>
   fst (middleFrontStep s r p) p =
     \<lparr>px = px (s p) + (px (s r) - px (s p)) / 2,
      py = py (s p) + (py (s r) - py (s p)) / 2\<rparr> \<and>
   (\<forall>a. a \<noteq> p \<longrightarrow> fst (middleFrontStep s r p) a = s a)"
  by (simp add: middleFrontStep_def Let_def)

text \<open>The theorem at a store with red at address 0 and pink at address 1.\<close>

theorem middleFrontStep_midpoint_in_place_witness:
  "(0::nat) \<noteq> 1 \<and>
   fst (middleFrontStep ((\<lambda>_. \<lparr>px = 0, py = 0\<rparr>)(1 := \<lparr>px = 50, py = 10\<rparr>)) 0 1) 1
     = \<lparr>px = 25, py = 5\<rparr> \<and>
   fst (middleFrontStep ((\<lambda>_. \<lparr>px = 0, py = 0\<rparr>)(1 := \<lparr>px = 50, py = 10\<rparr>)) 0 1) 0
     = \<lparr>px = 0, py = 0\<rparr>"
  using middleFrontStep_midpoint_in_place[of
      "(\<lambda>_. \<lparr>px = 0, py = 0\<rparr>)(1 := \<lparr>px = 50, py = 10\<rparr>)" 0 1]
  by simp

end
